theory Spec2Isabelle
  imports Main "HOL-Library.Sublist" "HOL-Library.AList"
begin

section \<open>The typings installer worker (nodeTypingsInstaller.ts)\<close>

text \<open>
  A shallow embedding of \<^verbatim>\<open>src/server/typingsInstaller/nodeTypingsInstaller.ts\<close>.
  The worker is a Node program: it mutates a logger and an installer object, appends to a
  log file, spawns the package manager and sends messages to its parent process. In the
  model every function takes the installer's state and returns the new one; an exception
  is a value of type \<open>js_error\<close>; what Node and the operating system decide (whether an
  append or a command fails, what a file holds) is a field of the record \<open>platform\<close>, acting
  on a state of the outside world of type \<open>'w\<close>.
\<close>

subsection \<open>JavaScript values\<close>

text \<open>An \<^verbatim>\<open>Error\<close> object: its name, message and stack.\<close>

datatype js_error = JsError string string string

fun errorMessage :: "js_error \<Rightarrow> string" where
  "errorMessage (JsError n m s) = m"

fun errorStack :: "js_error \<Rightarrow> string" where
  "errorStack (JsError n m s) = s"

text \<open>\<^verbatim>\<open>`${e}`\<close> on an error is \<^verbatim>\<open>Error.prototype.toString\<close>.\<close>

fun errorToString :: "js_error \<Rightarrow> string" where
  "errorToString (JsError n m s) =
     (if n = [] then m else if m = [] then n else n @ '': '' @ m)"

text \<open>
  The result of \<^verbatim>\<open>JSON.parse\<close>. An object is the list of its own properties in the
  order \<^verbatim>\<open>for..in\<close> enumerates them; numbers are kept as their literal.
\<close>

datatype json =
    JNull
  | JBool bool
  | JNumber string
  | JString string
  | JArray "json list"
  | JObject "(string \<times> json) list"

text \<open>
  What reading a property of a parsed document gives: \<^verbatim>\<open>undefined\<close>, a JSON value, or a
  member inherited from a built-in prototype (named).
\<close>

datatype jsval = Undefined | Val json | Native string

text \<open>A \<^verbatim>\<open>Buffer\<close> variable that may be unassigned or null.\<close>

datatype buffer = BufUndefined | BufNull | Buffer string

text \<open>\<^verbatim>\<open>`${b && b.toString()}`\<close>: a buffer object is truthy, also when empty.\<close>

fun bufferText :: "buffer \<Rightarrow> string" where
  "bufferText BufUndefined = ''undefined''"
| "bufferText BufNull = ''null''"
| "bufferText (Buffer s) = s"

text \<open>The error \<^verbatim>\<open>execSync\<close> throws: message, and the output captured so far.\<close>

datatype exec_error = ExecError string buffer buffer

datatype exec_outcome = Returned buffer | Threw exec_error

text \<open>The command exited cleanly: \<^verbatim>\<open>execSync\<close> returned and did not throw.\<close>

fun exitedCleanly :: "exec_outcome \<Rightarrow> bool" where
  "exitedCleanly (Returned b) = True"
| "exitedCleanly (Threw e) = False"

record exec_options =
  cwd :: "string option"
  stdio :: "string option"

text \<open>Decimal rendering of an integer, as a template literal renders a number.\<close>

fun showNat :: "nat \<Rightarrow> string" where
  "showNat n =
     (if n < 10 then [char_of (n + 48)] else showNat (n div 10) @ [char_of (n mod 10 + 48)])"

definition showInt :: "int \<Rightarrow> string" where
  "showInt i = (if i < 0 then CHR ''-'' # showNat (nat (- i)) else showNat (nat i))"

text \<open>\<^verbatim>\<open>s.indexOf(t)\<close>: the first position at which \<open>t\<close> occurs in \<open>s\<close>, or \<open>-1\<close>.\<close>

fun indexOf :: "string \<Rightarrow> string \<Rightarrow> int" where
  "indexOf [] t = (if t = [] then 0 else - 1)"
| "indexOf (c # s) t =
     (if prefix t (c # s) then 0
      else (let i = indexOf s t in if i < 0 then - 1 else i + 1))"

text \<open>\<^verbatim>\<open>names.join(sep)\<close>.\<close>

fun join :: "string list \<Rightarrow> string \<Rightarrow> string" where
  "join [] sep = []"
| "join [x] sep = x"
| "join (x # y # ys) sep = x @ sep @ join (y # ys) sep"

text \<open>\<^verbatim>\<open>a || b\<close> on optional strings: \<^verbatim>\<open>undefined\<close> and the empty string are falsy.\<close>

fun orElse :: "string option \<Rightarrow> string option \<Rightarrow> string option" where
  "orElse None b = b"
| "orElse (Some s) b = (if s = [] then b else Some s)"

definition dquote :: string where
  "dquote = [CHR 0x22]"

subsection \<open>Responses and requests\<close>

text \<open>
  The responses this file builds, and those of the base class \<^verbatim>\<open>TypingsInstaller\<close>
  (typingsInstaller.ts, referenced at line 1 and not part of this file), which are opaque
  values of type \<open>'b\<close>.
\<close>

datatype 'b response =
    InitializationFailedResponse string
  | TypesRegistryResponse "(string \<times> json) list"
  | PackageInstalledResponse bool string
  | BaseResponse 'b

fun isInitializationFailed :: "'b response \<Rightarrow> bool" where
  "isInitializationFailed (InitializationFailedResponse m) = True"
| "isInitializationFailed r = False"

text \<open>
  An inbound message, by its \<^verbatim>\<open>kind\<close>. \<open>InstallPackage\<close> carries \<^verbatim>\<open>fileName\<close>,
  \<^verbatim>\<open>packageName\<close> and \<^verbatim>\<open>projectRootPath\<close>; the payload of the two requests handled by
  the base class is opaque. \<open>OtherKind\<close> is a message whose kind is none of the four of
  \<^verbatim>\<open>TypingInstallerRequestUnion\<close>: the channel carries untyped JSON, and the \<^verbatim>\<open>default\<close>
  branch of the dispatch is there for it.
\<close>

datatype 'p request =
    Discover 'p
  | CloseProject 'p
  | TypesRegistry
  | InstallPackage string string "string option"
  | OtherKind string

fun legalKind :: "'p request \<Rightarrow> bool" where
  "legalKind (OtherKind k) = False"
| "legalKind r = True"

subsection \<open>The platform\<close>

text \<open>
  Node, the operating system, and the parts of the compiler this file calls that are not
  part of it. \<open>appendFileSync\<close> and \<open>execSync\<close> change the outside world and may throw;
  \<open>readFile\<close> may throw or give \<^verbatim>\<open>undefined\<close>; \<open>script_dirname\<close> is \<^verbatim>\<open>__dirname\<close>.
  \<open>base_constructor\<close>, \<open>base_install\<close>,
  \<open>base_closeProject\<close> and \<open>ensurePackageDirectoryExists\<close> are the base class: they act on
  the world, and the two handlers give the responses they send.
  \<open>typeErrorOnNull\<close> is the error thrown by reading a property of \<^verbatim>\<open>null\<close>, and
  \<open>assertionFailure\<close> the one thrown by a failed debug assertion.
\<close>

record ('w, 'b, 'p) platform =
  newLine :: string
  argv0 :: string
  pid :: int
  version :: string
  script_dirname :: string
  path_basename :: "string \<Rightarrow> string"
  path_dirname :: "string \<Rightarrow> string"
  path_join :: "string list \<Rightarrow> string"
  appendFileSync :: "string option \<Rightarrow> string \<Rightarrow> 'w \<Rightarrow> js_error option \<times> 'w"
  fileExists :: "string \<Rightarrow> 'w \<Rightarrow> bool"
  readFile :: "string \<Rightarrow> 'w \<Rightarrow> js_error + string option"
  JSON_parse :: "string \<Rightarrow> js_error + json"
  JSON_stringify :: "'b response \<Rightarrow> string"
  JSON_stringify_names :: "string list \<Rightarrow> string"
  execSync :: "string \<Rightarrow> exec_options \<Rightarrow> 'w \<Rightarrow> exec_outcome \<times> 'w"
  now :: "'w \<Rightarrow> int"
  normalizeSlashes :: "string \<Rightarrow> string"
  toPath :: "string \<Rightarrow> string \<Rightarrow> string"
  typeErrorOnNull :: js_error
  assertionFailure :: js_error
  base_constructor :: "string \<Rightarrow> string \<Rightarrow> string \<Rightarrow> int \<Rightarrow> 'w \<Rightarrow> 'w"
  ensurePackageDirectoryExists :: "string \<Rightarrow> 'w \<Rightarrow> 'w"
  base_install :: "'p \<Rightarrow> 'w \<Rightarrow> 'b list \<times> 'w"
  base_closeProject :: "'p \<Rightarrow> 'w \<Rightarrow> 'b list \<times> 'w"

subsection \<open>FileLog (lines 15-31)\<close>

record fileLog =
  logEnabled :: bool
  logFile :: "string option"

definition FileLog :: "string option \<Rightarrow> fileLog" where
  "FileLog file = \<lparr>logEnabled = True, logFile = file\<rparr>"

definition isEnabled :: "fileLog \<Rightarrow> bool" where
  "isEnabled l = (logEnabled l \<and> logFile l \<noteq> None)"

text \<open>
  \<open>writeLine\<close> appends without looking at \<open>logEnabled\<close>; whatever the append throws is
  caught, and the handler's only effect is to clear \<open>logEnabled\<close>.
\<close>

definition writeLine ::
  "('w, 'b, 'p) platform \<Rightarrow> string \<Rightarrow> fileLog \<times> 'w \<Rightarrow> fileLog \<times> 'w" where
  "writeLine env text lw =
     (case appendFileSync env (logFile (fst lw)) (text @ newLine env) (snd lw) of
        (None, w') \<Rightarrow> (fst lw, w')
      | (Some e, w') \<Rightarrow> ((fst lw)\<lparr>logEnabled := False\<rparr>, w'))"

text \<open>A sequence of \<open>writeLine\<close> calls, by any caller holding the logger.\<close>

fun writeLines ::
  "('w, 'b, 'p) platform \<Rightarrow> string list \<Rightarrow> fileLog \<times> 'w \<Rightarrow> fileLog \<times> 'w" where
  "writeLines env [] lw = lw"
| "writeLines env (t # ts) lw = writeLines env ts (writeLine env t lw)"


subsection \<open>Path helpers of the compiler\<close>

text \<open>
  Modelled from the spec: \<^verbatim>\<open>getDirectoryPath\<close>, \<^verbatim>\<open>combinePaths\<close> and
  \<^verbatim>\<open>forEachAncestorDirectory\<close> (compiler/core.ts) are called by this file and are not part
  of it. Paths are \<open>/\<close>-separated as in the spec's example \<^verbatim>\<open>/a/b/c/file.ts\<close>:
  \<open>getDirectoryPath\<close> gives the directory containing a path, the root being its own
  directory; \<open>combinePaths\<close> names an entry of a directory; \<open>forEachAncestorDirectory\<close>
  starts at a directory and walks upward through its ancestors, up to and including the
  root, giving the first result the callback has, or absent when it has none.
\<close>

fun getRootLength :: "string \<Rightarrow> nat" where
  "getRootLength [] = 0"
| "getRootLength (c # p) = (if c = CHR ''/'' then 1 else 0)"

definition lastSlash :: "string \<Rightarrow> nat option" where
  "lastSlash p =
     (case dropWhile (\<lambda>c. c \<noteq> CHR ''/'') (rev p) of [] \<Rightarrow> None | c # r \<Rightarrow> Some (length r))"

definition getDirectoryPath :: "string \<Rightarrow> string" where
  "getDirectoryPath p =
     take (max (getRootLength p) (case lastSlash p of None \<Rightarrow> 0 | Some i \<Rightarrow> i)) p"

definition combinePaths :: "string \<Rightarrow> string \<Rightarrow> string" where
  "combinePaths path1 path2 =
     (if path1 = [] then path2
      else if path2 = [] then path1
      else if getRootLength path2 \<noteq> 0 then path2
      else if last path1 = CHR ''/'' then path1 @ path2
      else path1 @ ''/'' @ path2)"

function forEachAncestorDirectory :: "string \<Rightarrow> (string \<Rightarrow> 'a option) \<Rightarrow> 'a option" where
  "forEachAncestorDirectory directory callback =
     (case callback directory of
        Some result \<Rightarrow> Some result
      | None \<Rightarrow>
          (let parentPath = getDirectoryPath directory
           in if parentPath = directory then None
              else forEachAncestorDirectory parentPath callback))"
  by pat_completeness auto
termination
proof (relation "measure (\<lambda>(d, c). length d)")
  fix directory :: string and callback :: "string \<Rightarrow> 'a option" and parentPath
  assume "parentPath = getDirectoryPath directory" and "parentPath \<noteq> directory"
  then have "length parentPath < length directory"
    unfolding getDirectoryPath_def
    by (metis length_take min.strict_order_iff min_less_iff_conj nat_neq_iff take_all_iff
        linorder_not_less)
  then show "((parentPath, callback), directory, callback) \<in> measure (\<lambda>(d, c). length d)"
    by simp
qed simp

declare forEachAncestorDirectory.simps [simp del]

text \<open>
  The chain the walk visits, nearest first: a directory, its parent, and so on up to the
  directory that is its own parent.
\<close>

function ancestorDirectories :: "string \<Rightarrow> string list" where
  "ancestorDirectories directory =
     (if getDirectoryPath directory = directory then [directory]
      else directory # ancestorDirectories (getDirectoryPath directory))"
  by pat_completeness auto
termination
proof (relation "measure length")
  fix directory :: string
  assume "getDirectoryPath directory \<noteq> directory"
  then have "length (getDirectoryPath directory) < length directory"
    unfolding getDirectoryPath_def
    by (metis length_take min.strict_order_iff min_less_iff_conj nat_neq_iff take_all_iff
        linorder_not_less)
  then show "(getDirectoryPath directory, directory) \<in> measure length"
    by simp
qed simp

declare ancestorDirectories.simps [simp del]

text \<open>
  Modelled from the spec: \<^verbatim>\<open>stringContains\<close> (compiler/core.ts, not part of this file):
  whether a string contains another.
\<close>

definition stringContains :: "string \<Rightarrow> string \<Rightarrow> bool" where
  "stringContains str substring = (indexOf str substring \<noteq> - 1)"


subsection \<open>getDefaultNPMLocation (lines 33-41)\<close>

text \<open>
  The test is \<^verbatim>\<open>indexOf("node") === 0\<close>. The directory is taken from
  \<^verbatim>\<open>process.argv[0]\<close>, not from the parameter.
\<close>

definition getDefaultNPMLocation :: "('w, 'b, 'p) platform \<Rightarrow> string \<Rightarrow> string" where
  "getDefaultNPMLocation env processName =
     (if indexOf (path_basename env processName) ''node'' = 0
      then dquote @ path_join env [path_dirname env (argv0 env), ''npm''] @ dquote
      else ''npm'')"

subsection \<open>loadTypesRegistryFile (lines 43-64)\<close>

text \<open>
  \<^verbatim>\<open>content.entries\<close> on a parsed document: a \<^verbatim>\<open>TypeError\<close> on \<^verbatim>\<open>null\<close>; the own
  property of an object; the built-in iterator method of an array; \<^verbatim>\<open>undefined\<close> on a
  string, number or boolean. The cast to \<^verbatim>\<open>TypesRegistryFile\<close> checks nothing at run
  time.
\<close>

fun getEntries :: "('w, 'b, 'p) platform \<Rightarrow> json \<Rightarrow> js_error + jsval" where
  "getEntries env JNull = Inl (typeErrorOnNull env)"
| "getEntries env (JObject kvs) =
     Inr (case map_of kvs ''entries'' of None \<Rightarrow> Undefined | Some v \<Rightarrow> Val v)"
| "getEntries env (JArray xs) = Inr (Native ''Array.prototype.entries'')"
| "getEntries env v = Inr Undefined"

definition createMap :: "(string \<times> json) list" where
  "createMap = []"

text \<open>
  Modelled from the spec: \<^verbatim>\<open>createMapFromTemplate\<close> (compiler/core.ts) is called by
  the loader and is not part of this file. It builds the snapshot that has the names of
  its template, each with its marker. The names of a template are its own enumerable
  properties, the ones \<^verbatim>\<open>for..in\<close> gives: the entries of a record; the indices of an
  array or of a string; none for \<^verbatim>\<open>undefined\<close>, \<^verbatim>\<open>null\<close>, a number, a boolean or a
  function. An ES \<^verbatim>\<open>Map\<close> keeps each key once, in insertion order, which is what
  \<open>AList.update\<close> does.
\<close>

fun ownProperties :: "jsval \<Rightarrow> (string \<times> json) list" where
  "ownProperties (Val (JObject es)) = es"
| "ownProperties (Val (JArray xs)) = zip (map showNat [0..<length xs]) xs"
| "ownProperties (Val (JString t)) =
     zip (map showNat [0..<length t]) (map (\<lambda>c. JString [c]) t)"
| "ownProperties template = []"

definition createMapFromTemplate :: "jsval \<Rightarrow> (string \<times> json) list" where
  "createMapFromTemplate template =
     fold (\<lambda>kv. AList.update (fst kv) (snd kv)) (ownProperties template) []"

text \<open>
  The body of the \<^verbatim>\<open>try\<close> block (lines 55-56). \<^verbatim>\<open>JSON.parse\<close> converts its argument
  to a string, so \<^verbatim>\<open>undefined\<close> is parsed as the text \<^verbatim>\<open>undefined\<close>.
\<close>

definition parseTypesRegistryFile ::
  "('w, 'b, 'p) platform \<Rightarrow> string \<Rightarrow> 'w \<Rightarrow> js_error + (string \<times> json) list" where
  "parseTypesRegistryFile env typesRegistryFilePath w =
     (case readFile env typesRegistryFilePath w of
        Inl e \<Rightarrow> Inl e
      | Inr text \<Rightarrow>
          (case JSON_parse env (case text of None \<Rightarrow> ''undefined'' | Some t \<Rightarrow> t) of
             Inl e \<Rightarrow> Inl e
           | Inr content \<Rightarrow>
               (case getEntries env content of
                  Inl e \<Rightarrow> Inl e
                | Inr template \<Rightarrow> Inr (createMapFromTemplate template))))"

definition squote :: string where
  "squote = [CHR 0x27]"

definition loadTypesRegistryFile ::
  "('w, 'b, 'p) platform \<Rightarrow> string \<Rightarrow> fileLog \<times> 'w \<Rightarrow> (string \<times> json) list \<times> (fileLog \<times> 'w)" where
  "loadTypesRegistryFile env typesRegistryFilePath lw =
     (if \<not> fileExists env typesRegistryFilePath (snd lw)
      then (createMap,
            if isEnabled (fst lw)
            then writeLine env (''Types registry file '' @ squote @ typesRegistryFilePath
                                @ squote @ '' does not exist'') lw
            else lw)
      else (case parseTypesRegistryFile env typesRegistryFilePath (snd lw) of
              Inr m \<Rightarrow> (m, lw)
            | Inl e \<Rightarrow>
                (createMap,
                 if isEnabled (fst lw)
                 then writeLine env (''Error when loading types registry file '' @ squote
                                     @ typesRegistryFilePath @ squote @ '': '' @ errorMessage e
                                     @ '', '' @ errorStack e) lw
                 else lw)))"

definition TypesRegistryPackageName :: string where
  "TypesRegistryPackageName = ''types-registry''"

definition getTypesRegistryFileLocation :: "('w, 'b, 'p) platform \<Rightarrow> string \<Rightarrow> string" where
  "getTypesRegistryFileLocation env globalTypingsCacheLocation =
     combinePaths (normalizeSlashes env globalTypingsCacheLocation)
       (''node_modules/'' @ TypesRegistryPackageName @ ''/index.json'')"

subsection \<open>The installer object\<close>

text \<open>
  The fields of \<^verbatim>\<open>NodeTypingsInstaller\<close> that this file reads or writes, with the logger
  it was given and the outside world. \<open>sent\<close> is what \<^verbatim>\<open>process.send\<close> has been given,
  oldest first; \<open>spawned\<close> is the history of the calls of \<^verbatim>\<open>execSync\<close>: the command, the
  options and how the call ended.
\<close>

record ('w, 'b) installer =
  log :: fileLog
  world :: 'w
  npmPath :: string
  typesRegistry :: "(string \<times> json) list"
  delayedInitializationError :: "'b response option"
  sent :: "'b response list"
  spawned :: "(string \<times> exec_options \<times> exec_outcome) list"

text \<open>\<^verbatim>\<open>this.log.writeLine(text)\<close> on the installer's logger.\<close>

definition logLine ::
  "('w, 'b, 'p) platform \<Rightarrow> string \<Rightarrow> ('w, 'b) installer \<Rightarrow> ('w, 'b) installer" where
  "logLine env text st =
     (let lw = writeLine env text (log st, world st) in st\<lparr>log := fst lw, world := snd lw\<rparr>)"

text \<open>\<^verbatim>\<open>this.execSync(command, options)\<close>: the world moves on, the call is recorded.\<close>

definition runCommand ::
  "('w, 'b, 'p) platform \<Rightarrow> string \<Rightarrow> exec_options \<Rightarrow> ('w, 'b) installer
     \<Rightarrow> exec_outcome \<times> ('w, 'b) installer" where
  "runCommand env command options st =
     (let r = execSync env command options (world st)
      in (fst r, st\<lparr>world := snd r, spawned := spawned st @ [(command, options, fst r)]\<rparr>))"

subsection \<open>sendResponse (lines 165-173)\<close>

definition sendResponse ::
  "('w, 'b, 'p) platform \<Rightarrow> 'b response \<Rightarrow> ('w, 'b) installer \<Rightarrow> ('w, 'b) installer" where
  "sendResponse env response st =
     (let st1 = (if isEnabled (log st)
                 then logLine env (''Sending response: '' @ JSON_stringify env response) st
                 else st);
          st2 = st1\<lparr>sent := sent st1 @ [response]\<rparr>
      in if isEnabled (log st2) then logLine env ''Response has been sent.'' st2 else st2)"

subsection \<open>installWorker (lines 175-196)\<close>

definition installWorker ::
  "('w, 'b, 'p) platform \<Rightarrow> int \<Rightarrow> string list \<Rightarrow> string option
     \<Rightarrow> (bool \<Rightarrow> ('w, 'b) installer \<Rightarrow> ('w, 'b) installer)
     \<Rightarrow> ('w, 'b) installer \<Rightarrow> ('w, 'b) installer" where
  "installWorker env requestId packageNames dir onRequestCompleted st =
     (let st1 = (if isEnabled (log st)
                 then logLine env (''#'' @ showInt requestId @ '' with arguments'' @ squote
                                   @ JSON_stringify_names env packageNames @ squote @ ''.'') st
                 else st);
          command = npmPath st1 @ '' install --ignore-scripts '' @ join packageNames '' ''
                    @ '' --save-dev --user-agent='' @ dquote @ ''typesInstaller/''
                    @ version env @ dquote;
          start = now env (world st1);
          r = runCommand env command \<lparr>cwd = dir, stdio = None\<rparr> st1;
          st2 = snd r;
          out = (case fst r of
                   Returned b \<Rightarrow> (b, BufUndefined, False)
                 | Threw (ExecError m so se) \<Rightarrow> (so, se, True));
          stdout = fst out;
          stderr = fst (snd out);
          hasError = snd (snd out);
          st3 = (if isEnabled (log st2)
                 then logLine env (''npm install #'' @ showInt requestId @ '' took: ''
                                   @ showInt (now env (world st2) - start) @ '' ms''
                                   @ newLine env @ ''stdout: '' @ bufferText stdout
                                   @ newLine env @ ''stderr: '' @ bufferText stderr) st2
                 else st2)
      in onRequestCompleted (\<not> hasError) st3)"

subsection \<open>getDirectoryOfPackageJson (lines 199-205)\<close>

definition getDirectoryOfPackageJson ::
  "('w, 'b, 'p) platform \<Rightarrow> string \<Rightarrow> 'w \<Rightarrow> string option" where
  "getDirectoryOfPackageJson env fileName w =
     forEachAncestorDirectory (getDirectoryPath fileName)
       (\<lambda>directory. if fileExists env (combinePaths directory ''package.json'') w
                    then Some directory else None)"


subsection \<open>The constructor (lines 80-124)\<close>

text \<open>A location argument is used when it is truthy: given and not empty.\<close>

fun truthy :: "string option \<Rightarrow> bool" where
  "truthy None = False"
| "truthy (Some s) = (s \<noteq> [])"

definition Arguments_NpmLocation :: string where
  "Arguments_NpmLocation = ''--npmLocation''"

text \<open>
  Lines 81-100: the base class is constructed, the package manager is located and quoted,
  two lines are logged, the cache directory is made.
\<close>

definition beforeUpdate ::
  "('w, 'b, 'p) platform \<Rightarrow> string \<Rightarrow> string option \<Rightarrow> string option \<Rightarrow> string option \<Rightarrow> int
     \<Rightarrow> fileLog \<Rightarrow> 'w \<Rightarrow> ('w, 'b) installer" where
  "beforeUpdate env globalTypingsCacheLocation typingSafeListLocation typesMapLocation
       npmLocation throttleLimit log0 w0 =
     (let w1 = base_constructor env globalTypingsCacheLocation
                 (if truthy typingSafeListLocation
                  then toPath env (the typingSafeListLocation) []
                  else toPath env ''typingSafeList.json'' (script_dirname env))
                 (if truthy typesMapLocation
                  then toPath env (the typesMapLocation) []
                  else toPath env ''typesMap.json'' (script_dirname env))
                 throttleLimit w0;
          npmPath0 = (case npmLocation of
                        Some l \<Rightarrow> l
                      | None \<Rightarrow> getDefaultNPMLocation env (argv0 env));
          npmPath1 = (if stringContains npmPath0 '' '' \<and> take 1 npmPath0 \<noteq> dquote
                      then dquote @ npmPath0 @ dquote else npmPath0);
          st0 = \<lparr>log = log0, world = w1, npmPath = npmPath1, typesRegistry = [],
                 delayedInitializationError = None, sent = [], spawned = []\<rparr>;
          st1 = (if isEnabled (log st0)
                 then logLine env (''NPM location: '' @ npmPath1 @ '' (explicit '' @ squote
                                   @ Arguments_NpmLocation @ squote @ '' ''
                                   @ (if npmLocation = None then ''not '' else [])
                                   @ '' provided)'')
                        (logLine env (''Process id: '' @ showInt (pid env)) st0)
                 else st0)
      in st1\<lparr>world := ensurePackageDirectoryExists env globalTypingsCacheLocation (world st1)\<rparr>)"

text \<open>Lines 104-107: the \<^verbatim>\<open>try\<close> block up to and including the update command.\<close>

definition updateAttempt ::
  "('w, 'b, 'p) platform \<Rightarrow> string \<Rightarrow> ('w, 'b) installer \<Rightarrow> exec_outcome \<times> ('w, 'b) installer" where
  "updateAttempt env globalTypingsCacheLocation st =
     runCommand env
       (npmPath st @ '' install --ignore-scripts '' @ TypesRegistryPackageName)
       \<lparr>cwd = Some globalTypingsCacheLocation, stdio = Some ''ignore''\<rparr>
       (if isEnabled (log st)
        then logLine env (''Updating '' @ TypesRegistryPackageName @ '' npm package...'') st
        else st)"

text \<open>Lines 103-121: the update, and what is kept of its failure.\<close>

definition updateTypesRegistry ::
  "('w, 'b, 'p) platform \<Rightarrow> string \<Rightarrow> ('w, 'b) installer \<Rightarrow> ('w, 'b) installer" where
  "updateTypesRegistry env globalTypingsCacheLocation st =
     (case updateAttempt env globalTypingsCacheLocation st of
        (Returned b, st1) \<Rightarrow>
          (if isEnabled (log st1)
           then logLine env (''Updated '' @ TypesRegistryPackageName @ '' npm package'') st1
           else st1)
      | (Threw (ExecError m so se), st1) \<Rightarrow>
          (if isEnabled (log st1)
           then logLine env (''Error updating '' @ TypesRegistryPackageName @ '' package: '' @ m) st1
           else st1)
          \<lparr>delayedInitializationError := Some (InitializationFailedResponse m)\<rparr>)"

definition NodeTypingsInstaller ::
  "('w, 'b, 'p) platform \<Rightarrow> string \<Rightarrow> string option \<Rightarrow> string option \<Rightarrow> string option \<Rightarrow> int
     \<Rightarrow> fileLog \<Rightarrow> 'w \<Rightarrow> ('w, 'b) installer" where
  "NodeTypingsInstaller env globalTypingsCacheLocation typingSafeListLocation typesMapLocation
       npmLocation throttleLimit log0 w0 =
     (let st = updateTypesRegistry env globalTypingsCacheLocation
                 (beforeUpdate env globalTypingsCacheLocation typingSafeListLocation
                    typesMapLocation npmLocation throttleLimit log0 w0);
          r = loadTypesRegistryFile env
                (getTypesRegistryFileLocation env globalTypingsCacheLocation) (log st, world st)
      in st\<lparr>typesRegistry := fst r, log := fst (snd r), world := snd (snd r)\<rparr>)"

subsection \<open>listen (lines 126-163)\<close>

text \<open>
  The two handlers of the base class: the base class acts on the world and sends its
  responses through \<open>sendResponse\<close>.
\<close>

definition install ::
  "('w, 'b, 'p) platform \<Rightarrow> 'p \<Rightarrow> ('w, 'b) installer \<Rightarrow> ('w, 'b) installer" where
  "install env req st =
     (let r = base_install env req (world st)
      in fold (\<lambda>b. sendResponse env (BaseResponse b)) (fst r) (st\<lparr>world := snd r\<rparr>))"

definition closeProject ::
  "('w, 'b, 'p) platform \<Rightarrow> 'p \<Rightarrow> ('w, 'b) installer \<Rightarrow> ('w, 'b) installer" where
  "closeProject env req st =
     (let r = base_closeProject env req (world st)
      in fold (\<lambda>b. sendResponse env (BaseResponse b)) (fst r) (st\<lparr>world := snd r\<rparr>))"

text \<open>
  Modelled from the spec: \<^verbatim>\<open>Debug.assertNever\<close> (compiler/core.ts) is called by the
  \<^verbatim>\<open>default\<close> branch and is not part of this file. It is the exhaustiveness failure: it
  never returns, it raises.
\<close>

definition Debug_assertNever :: "('w, 'b, 'p) platform \<Rightarrow> js_error + unit" where
  "Debug_assertNever env = Inl (assertionFailure env)"

text \<open>
  \<^verbatim>\<open>typesRegistry[key] = value\<close> on a plain object: the name \<^verbatim>\<open>__proto__\<close> is the
  prototype accessor and makes no property.
\<close>

definition assignProperty :: "string \<Rightarrow> json \<Rightarrow> (string \<times> json) list \<Rightarrow> (string \<times> json) list" where
  "assignProperty key v obj = (if key = ''__proto__'' then obj else AList.update key v obj)"

text \<open>
  The listener registered by \<open>listen\<close>, on one message. The result says whether the
  listener returned or raised; the state is the one it leaves behind in either case.
\<close>

definition onMessage ::
  "('w, 'b, 'p) platform \<Rightarrow> 'p request \<Rightarrow> ('w, 'b) installer
     \<Rightarrow> (js_error + unit) \<times> ('w, 'b) installer" where
  "onMessage env req st =
     (let st1 = (case delayedInitializationError st of
                   Some e \<Rightarrow> (sendResponse env e st)\<lparr>delayedInitializationError := None\<rparr>
                 | None \<Rightarrow> st)
      in case req of
           Discover p \<Rightarrow> (Inr (), install env p st1)
         | CloseProject p \<Rightarrow> (Inr (), closeProject env p st1)
         | TypesRegistry \<Rightarrow>
             (Inr (),
              sendResponse env
                (TypesRegistryResponse
                   (fold (\<lambda>kv. assignProperty (fst kv) (snd kv)) (typesRegistry st1) [])) st1)
         | InstallPackage fileName packageName projectRootPath \<Rightarrow>
             (Inr (),
              installWorker env (- 1) [packageName]
                (orElse (getDirectoryOfPackageJson env fileName (world st1)) projectRootPath)
                (\<lambda>success.
                   sendResponse env
                     (PackageInstalledResponse success
                        (if success then ''Package '' @ packageName @ '' installed.''
                         else ''There was an error installing '' @ packageName @ ''.'')))
                st1)
         | OtherKind k \<Rightarrow> (Debug_assertNever env, st1))"

subsection \<open>The process (lines 207-226)\<close>

text \<open>
  What the process receives: a message, or the disconnection of its parent. A listener
  that raises leaves an uncaught exception: Node then ends the process, unless a listener
  for \<^verbatim>\<open>uncaughtException\<close> is registered, which is then run and the process goes on.
  Lines 214-218 register one, which writes a line to the log, when the logger is enabled
  at start.
\<close>

datatype 'p event = Message "'p request" | Disconnect

fun processEvents ::
  "('w, 'b, 'p) platform \<Rightarrow> bool \<Rightarrow> 'p event list \<Rightarrow> ('w, 'b) installer \<Rightarrow> ('w, 'b) installer" where
  "processEvents env handlesUncaught [] st = st"
| "processEvents env handlesUncaught (Disconnect # es) st =
     (if isEnabled (log st)
      then logLine env ''Parent process has exited, shutting down...'' st
      else st)"
| "processEvents env handlesUncaught (Message req # es) st =
     (case onMessage env req st of
        (Inr u, st1) \<Rightarrow> processEvents env handlesUncaught es st1
      | (Inl e, st1) \<Rightarrow>
          (if handlesUncaught
           then processEvents env handlesUncaught es
                  (logLine env (''Unhandled exception: '' @ errorToString e @ '' at ''
                                @ errorStack e) st1)
           else st1))"

definition main ::
  "('w, 'b, 'p) platform \<Rightarrow> string option \<Rightarrow> string \<Rightarrow> string option \<Rightarrow> string option
     \<Rightarrow> string option \<Rightarrow> 'p event list \<Rightarrow> 'w \<Rightarrow> ('w, 'b) installer" where
  "main env logFilePath globalTypingsCacheLocation typingSafeListLocation typesMapLocation
       npmLocation events w0 =
     (let log0 = FileLog logFilePath
      in processEvents env (isEnabled log0) events
           (NodeTypingsInstaller env globalTypingsCacheLocation typingSafeListLocation
              typesMapLocation npmLocation 5 log0 w0))"


subsection \<open>A platform to run the model on\<close>

text \<open>
  An outside world small enough to evaluate: the files and their contents, whether the
  log can be appended to, the commands that fail, and a clock. Paths are POSIX paths.
\<close>

record testWorld =
  files :: "(string \<times> string) list"
  writable :: bool
  failing :: "string list"
  clock :: int

definition posix_basename :: "string \<Rightarrow> string" where
  "posix_basename p =
     rev (takeWhile (\<lambda>c. c \<noteq> CHR ''/'') (dropWhile (\<lambda>c. c = CHR ''/'') (rev p)))"

definition lodashRegistry :: string where
  \<open>lodashRegistry = ''{"entries":{"lodash":null}}''\<close>

definition arrayRegistry :: string where
  \<open>arrayRegistry = ''{"entries":["lodash","react"]}''\<close>

definition testPlatform :: "(testWorld, unit, unit) platform" where
  "testPlatform =
     \<lparr>newLine = [CHR 0x0A],
      argv0 = ''/usr/local/bin/node'',
      pid = 42,
      version = ''2.9.0'',
      script_dirname = ''/usr/lib/typescript'',
      path_basename = posix_basename,
      path_dirname = getDirectoryPath,
      path_join = (\<lambda>parts. join parts ''/''),
      appendFileSync =
        (\<lambda>file content w.
           case file of
             None \<Rightarrow> (Some (JsError ''TypeError'' ''path must be a string'' []), w)
           | Some f \<Rightarrow>
               if writable w
               then (None, w\<lparr>files := AList.update f
                                         ((case map_of (files w) f of None \<Rightarrow> [] | Some t \<Rightarrow> t)
                                          @ content) (files w)\<rparr>)
               else (Some (JsError ''Error'' ''EACCES: permission denied'' []), w)),
      fileExists = (\<lambda>path w. map_of (files w) path \<noteq> None),
      readFile = (\<lambda>path w. Inr (map_of (files w) path)),
      JSON_parse =
        (\<lambda>text. if text = lodashRegistry
                 then Inr (JObject [(''entries'', JObject [(''lodash'', JNull)])])
                 else if text = arrayRegistry
                 then Inr (JObject [(''entries'', JArray [JString ''lodash'', JString ''react''])])
                 else Inl (JsError ''SyntaxError'' ''Unexpected token'' [])),
      JSON_stringify = (\<lambda>r. ''{}''),
      JSON_stringify_names = (\<lambda>names. ''[]''),
      execSync =
        (\<lambda>command options w.
           (if command \<in> set (failing w)
            then Threw (ExecError ''network unreachable'' BufNull BufNull)
            else Returned (Buffer []),
            w\<lparr>clock := clock w + 1\<rparr>)),
      now = clock,
      normalizeSlashes = (\<lambda>p. p),
      toPath = (\<lambda>fileName basePath. combinePaths basePath fileName),
      typeErrorOnNull = JsError ''TypeError'' ''Cannot read property of null'' [],
      assertionFailure = JsError ''Error'' ''Debug Failure.'' [],
      base_constructor = (\<lambda>cache safeList typesMap throttle w. w),
      ensurePackageDirectoryExists = (\<lambda>dir w. w),
      base_install = (\<lambda>req w. ([], w)),
      base_closeProject = (\<lambda>req w. ([], w))\<rparr>"


text \<open>
  A platform whose program entry is not named after Node, and some worlds: one where the
  registry package cannot be updated, one with the registry and a project in place, one
  whose registry file lists its entries in an array, one whose registry file is cut
  short, one where installing \<^verbatim>\<open>react\<close> fails, one with a project in the working directory, and
  one where nothing can be written.
\<close>

definition portablePlatform :: "(testWorld, unit, unit) platform" where
  "portablePlatform = testPlatform\<lparr>argv0 := ''/opt/tools/portable-node''\<rparr>"

definition offlineWorld :: testWorld where
  "offlineWorld =
     \<lparr>files = [], writable = True,
      failing = [''npm install --ignore-scripts types-registry''], clock = 0\<rparr>"

definition registryWorld :: testWorld where
  "registryWorld =
     \<lparr>files = [(''/cache/node_modules/types-registry/index.json'', lodashRegistry),
               (''/a/b/package.json'', ''{}'')],
      writable = True, failing = [], clock = 0\<rparr>"

definition reactFailsWorld :: testWorld where
  \<open>reactFailsWorld =
     \<lparr>files = [], writable = True,
      failing = [''npm install --ignore-scripts react --save-dev --user-agent="typesInstaller/2.9.0"''],
      clock = 0\<rparr>\<close>

definition arrayRegistryWorld :: testWorld where
  "arrayRegistryWorld =
     \<lparr>files = [(''/cache/node_modules/types-registry/index.json'', arrayRegistry)],
      writable = True, failing = [], clock = 0\<rparr>"

definition truncatedRegistryWorld :: testWorld where
  "truncatedRegistryWorld =
     \<lparr>files = [(''/cache/node_modules/types-registry/index.json'', ''{'')],
      writable = True, failing = [], clock = 0\<rparr>"

definition cwdPackageWorld :: testWorld where
  "cwdPackageWorld = \<lparr>files = [(''package.json'', ''{}'')], writable = True, failing = [], clock = 0\<rparr>"

definition readOnlyWorld :: testWorld where
  "readOnlyWorld = \<lparr>files = [], writable = False, failing = [], clock = 0\<rparr>"

section \<open>Facts about the model\<close>

subsection \<open>The logger only ever goes from enabled to disabled\<close>

lemma writeLine_logFile [simp]: "logFile (fst (writeLine env t lw)) = logFile (fst lw)"
  by (simp add: writeLine_def split: prod.splits option.splits)

lemma writeLine_disabled: "\<not> isEnabled (fst lw) \<Longrightarrow> \<not> isEnabled (fst (writeLine env t lw))"
  by (simp add: writeLine_def isEnabled_def split: prod.splits option.splits)

lemma writeLine_failed:
  "fst (appendFileSync env (logFile (fst lw)) (t @ newLine env) (snd lw)) = Some e
     \<Longrightarrow> \<not> isEnabled (fst (writeLine env t lw))"
  by (auto simp add: writeLine_def isEnabled_def split: prod.splits option.splits)

lemma writeLines_disabled:
  "\<not> isEnabled (fst lw) \<Longrightarrow> \<not> isEnabled (fst (writeLines env ts lw))"
  by (induction ts arbitrary: lw) (simp_all add: writeLine_disabled)

subsection \<open>What each operation leaves of the installer's fields\<close>

lemma logLine_fields [simp]:
  "sent (logLine env t st) = sent st"
  "delayedInitializationError (logLine env t st) = delayedInitializationError st"
  "spawned (logLine env t st) = spawned st"
  "npmPath (logLine env t st) = npmPath st"
  "typesRegistry (logLine env t st) = typesRegistry st"
  by (simp_all add: logLine_def Let_def)

lemma logLine_disabled: "\<not> isEnabled (log st) \<Longrightarrow> \<not> isEnabled (log (logLine env t st))"
  by (simp add: logLine_def Let_def writeLine_disabled)

lemma logLine_logFile [simp]: "logFile (log (logLine env t st)) = logFile (log st)"
  by (simp add: logLine_def Let_def)

lemma logLine_world:
  "world (logLine env t st)
     = snd (appendFileSync env (logFile (log st)) (t @ newLine env) (world st))"
  by (simp add: logLine_def Let_def writeLine_def split: prod.splits option.splits)

lemma sendResponse_fields [simp]:
  "sent (sendResponse env r st) = sent st @ [r]"
  "delayedInitializationError (sendResponse env r st) = delayedInitializationError st"
  "spawned (sendResponse env r st) = spawned st"
  "npmPath (sendResponse env r st) = npmPath st"
  "typesRegistry (sendResponse env r st) = typesRegistry st"
  by (simp_all add: sendResponse_def Let_def)

lemma sendResponse_disabled:
  "\<not> isEnabled (log st) \<Longrightarrow> \<not> isEnabled (log (sendResponse env r st))"
  by (simp add: sendResponse_def Let_def)

lemma sendResponse_quiet:
  "\<not> isEnabled (log st) \<Longrightarrow> log (sendResponse env r st) = log st"
  "\<not> isEnabled (log st) \<Longrightarrow> world (sendResponse env r st) = world st"
  by (simp_all add: sendResponse_def Let_def)

lemma sendResponse_logFile [simp]:
  "logFile (log (sendResponse env r st)) = logFile (log st)"
  by (simp add: sendResponse_def Let_def)

lemma runCommand_fields [simp]:
  "sent (snd (runCommand env c opts st)) = sent st"
  "delayedInitializationError (snd (runCommand env c opts st)) = delayedInitializationError st"
  "spawned (snd (runCommand env c opts st)) = spawned st @ [(c, opts, fst (runCommand env c opts st))]"
  "npmPath (snd (runCommand env c opts st)) = npmPath st"
  "typesRegistry (snd (runCommand env c opts st)) = typesRegistry st"
  "log (snd (runCommand env c opts st)) = log st"
  by (simp_all add: runCommand_def Let_def)

lemma sendAll_fields [simp]:
  "sent (fold (\<lambda>b. sendResponse env (BaseResponse b)) bs st) = sent st @ map BaseResponse bs"
  "delayedInitializationError (fold (\<lambda>b. sendResponse env (BaseResponse b)) bs st)
     = delayedInitializationError st"
  "spawned (fold (\<lambda>b. sendResponse env (BaseResponse b)) bs st) = spawned st"
  by (induction bs arbitrary: st) simp_all

lemma sendAll_disabled:
  "\<not> isEnabled (log st)
     \<Longrightarrow> \<not> isEnabled (log (fold (\<lambda>b. sendResponse env (BaseResponse b)) bs st))"
  by (induction bs arbitrary: st) (simp_all add: sendResponse_disabled)

text \<open>
  The worker runs one command and hands the outcome to its continuation: whatever the
  continuation, the result is the continuation applied once, to a state that does not
  depend on it.
\<close>

lemma installWorker_once:
  "\<exists>out st3.
     (\<forall>k. installWorker env i ns d k st = k (exitedCleanly out) st3)
     \<and> sent st3 = sent st
     \<and> delayedInitializationError st3 = delayedInitializationError st
     \<and> spawned st3 = spawned st @
          [(npmPath st @ '' install --ignore-scripts '' @ join ns '' ''
            @ '' --save-dev --user-agent='' @ dquote @ ''typesInstaller/'' @ version env @ dquote,
            \<lparr>cwd = d, stdio = None\<rparr>, out)]
     \<and> (\<not> isEnabled (log st) \<longrightarrow> \<not> isEnabled (log st3))"
proof -
  define st1 where "st1 = (if isEnabled (log st)
                 then logLine env (''#'' @ showInt i @ '' with arguments'' @ squote
                                   @ JSON_stringify_names env ns @ squote @ ''.'') st
                 else st)"
  define cmd where "cmd = npmPath st @ '' install --ignore-scripts '' @ join ns '' ''
            @ '' --save-dev --user-agent='' @ dquote @ ''typesInstaller/'' @ version env @ dquote"
  define r where "r = runCommand env cmd \<lparr>cwd = d, stdio = None\<rparr> st1"
  have st1: "sent st1 = sent st" "delayedInitializationError st1 = delayedInitializationError st"
    "spawned st1 = spawned st" "npmPath st1 = npmPath st"
    "\<not> isEnabled (log st) \<Longrightarrow> log st1 = log st"
    by (simp_all add: st1_def)
  show ?thesis
  proof (cases "fst r")
    case (Returned b)
    show ?thesis
      apply (rule exI [of _ "fst r"])
      apply (rule exI [of _ "if isEnabled (log (snd r))
                 then logLine env (''npm install #'' @ showInt i @ '' took: ''
                                   @ showInt (now env (world (snd r)) - now env (world st1)) @ '' ms''
                                   @ newLine env @ ''stdout: '' @ bufferText b
                                   @ newLine env @ ''stderr: '' @ bufferText BufUndefined) (snd r)
                 else snd r"])
      using Returned st1
      by (auto simp add: installWorker_def Let_def r_def cmd_def st1_def [symmetric])
  next
    case (Threw e)
    obtain m so se where e: "e = ExecError m so se" by (cases e)
    show ?thesis
      apply (rule exI [of _ "fst r"])
      apply (rule exI [of _ "if isEnabled (log (snd r))
                 then logLine env (''npm install #'' @ showInt i @ '' took: ''
                                   @ showInt (now env (world (snd r)) - now env (world st1)) @ '' ms''
                                   @ newLine env @ ''stdout: '' @ bufferText so
                                   @ newLine env @ ''stderr: '' @ bufferText se) (snd r)
                 else snd r"])
      using Threw e st1
      by (auto simp add: installWorker_def Let_def r_def cmd_def st1_def [symmetric])
  qed
qed

lemma installWorker_exec:
  fixes env :: "('w, 'b, 'p) platform" and st :: "('w, 'b) installer"
    and i :: int and ns :: "string list" and d :: "string option"
  defines "pre \<equiv> (if isEnabled (log st)
                 then logLine env (''#'' @ showInt i @ '' with arguments'' @ squote
                                   @ JSON_stringify_names env ns @ squote @ ''.'') st
                 else st)"
  defines "cmd \<equiv> npmPath st @ '' install --ignore-scripts '' @ join ns '' ''
            @ '' --save-dev --user-agent='' @ dquote @ ''typesInstaller/'' @ version env @ dquote"
  defines "r \<equiv> execSync env cmd \<lparr>cwd = d, stdio = None\<rparr> (world pre)"
  shows "\<exists>st3.
     (\<forall>k. installWorker env i ns d k st = k (exitedCleanly (fst r)) st3)
     \<and> sent st3 = sent st
     \<and> delayedInitializationError st3 = delayedInitializationError st
     \<and> spawned st3 = spawned st @ [(cmd, \<lparr>cwd = d, stdio = None\<rparr>, fst r)]
     \<and> (\<not> isEnabled (log st) \<longrightarrow> log st3 = log st \<and> world st3 = snd r)"
proof -
  define st2 where
    "st2 = pre\<lparr>world := snd r, spawned := spawned pre @ [(cmd, \<lparr>cwd = d, stdio = None\<rparr>, fst r)]\<rparr>"
  have pre: "sent pre = sent st" "delayedInitializationError pre = delayedInitializationError st"
    "spawned pre = spawned st" "npmPath pre = npmPath st"
    "\<not> isEnabled (log st) \<Longrightarrow> pre = st"
    by (simp_all add: pre_def)
  have rc: "runCommand env (npmPath pre @ '' install --ignore-scripts '' @ join ns '' ''
              @ '' --save-dev --user-agent='' @ dquote @ ''typesInstaller/'' @ version env @ dquote)
              \<lparr>cwd = d, stdio = None\<rparr> pre = (fst r, st2)"
    unfolding pre(4) cmd_def [symmetric] by (simp add: runCommand_def Let_def r_def st2_def)
  have st2: "sent st2 = sent st" "delayedInitializationError st2 = delayedInitializationError st"
    "spawned st2 = spawned st @ [(cmd, \<lparr>cwd = d, stdio = None\<rparr>, fst r)]"
    "log st2 = log pre" "world st2 = snd r"
    using pre by (simp_all add: st2_def)
  have unfold: "installWorker env i ns d k st =
      (let out = (case fst r of
                   Returned b \<Rightarrow> (b, BufUndefined, False)
                 | Threw (ExecError m so se) \<Rightarrow> (so, se, True))
       in k (\<not> snd (snd out))
            (if isEnabled (log st2)
             then logLine env (''npm install #'' @ showInt i @ '' took: ''
                               @ showInt (now env (world st2) - now env (world pre)) @ '' ms''
                               @ newLine env @ ''stdout: '' @ bufferText (fst out)
                               @ newLine env @ ''stderr: '' @ bufferText (fst (snd out))) st2
             else st2))" for k
    unfolding installWorker_def Let_def pre_def [symmetric] rc fst_conv snd_conv ..
  show ?thesis
  proof (cases "fst r")
    case (Returned b)
    show ?thesis
      apply (rule exI [of _ "if isEnabled (log st2)
             then logLine env (''npm install #'' @ showInt i @ '' took: ''
                               @ showInt (now env (world st2) - now env (world pre)) @ '' ms''
                               @ newLine env @ ''stdout: '' @ bufferText b
                               @ newLine env @ ''stderr: '' @ bufferText BufUndefined) st2
             else st2"])
      using Returned st2 pre(5) by (simp add: unfold)
  next
    case (Threw e)
    obtain m so se where e: "e = ExecError m so se" by (cases e)
    show ?thesis
      apply (rule exI [of _ "if isEnabled (log st2)
             then logLine env (''npm install #'' @ showInt i @ '' took: ''
                               @ showInt (now env (world st2) - now env (world pre)) @ '' ms''
                               @ newLine env @ ''stdout: '' @ bufferText so
                               @ newLine env @ ''stderr: '' @ bufferText se) st2
             else st2"])
      using Threw e st2 pre(5) by (simp add: unfold)
  qed
qed

subsection \<open>The listener and the pending error\<close>

lemma onMessage_flush:
  "delayedInitializationError st = Some e \<Longrightarrow>
     onMessage env req st
       = onMessage env req ((sendResponse env e st)\<lparr>delayedInitializationError := None\<rparr>)"
  by (simp add: onMessage_def)

lemma flushed_fields:
  fixes env :: "('w, 'b, 'p) platform" and st :: "('w, 'b) installer"
  defines "flushed \<equiv> (case delayedInitializationError st of
                 Some e \<Rightarrow> (sendResponse env e st)\<lparr>delayedInitializationError := None\<rparr>
               | None \<Rightarrow> st)"
  shows "sent flushed = sent st @ (case delayedInitializationError st of None \<Rightarrow> [] | Some e \<Rightarrow> [e])"
    and "spawned flushed = spawned st"
    and "npmPath flushed = npmPath st"
    and "\<not> isEnabled (log st) \<Longrightarrow> log flushed = log st"
    and "\<not> isEnabled (log st) \<Longrightarrow> world flushed = world st"
  by (simp_all add: flushed_def sendResponse_quiet split: option.splits)

lemma onMessage_installPackage:
  "(let flushed = (case delayedInitializationError st of
                       Some e \<Rightarrow> (sendResponse env e st)\<lparr>delayedInitializationError := None\<rparr>
                     | None \<Rightarrow> st);
          dir = orElse (getDirectoryOfPackageJson env fileName (world flushed)) projectRootPath;
          pre = (if isEnabled (log flushed)
                 then logLine env (''#'' @ showInt (- 1) @ '' with arguments'' @ squote
                                   @ JSON_stringify_names env [packageName] @ squote @ ''.'')
                        flushed
                 else flushed);
          command = npmPath st @ '' install --ignore-scripts '' @ packageName
                    @ '' --save-dev --user-agent='' @ dquote @ ''typesInstaller/''
                    @ version env @ dquote;
          r = execSync env command \<lparr>cwd = dir, stdio = None\<rparr> (world pre)
      in \<exists>st1.
           onMessage env (InstallPackage fileName packageName projectRootPath) st = (Inr (), st1)
           \<and> spawned st1 = spawned st @ [(command, \<lparr>cwd = dir, stdio = None\<rparr>, fst r)]
           \<and> sent st1 =
               sent st
               @ (case delayedInitializationError st of None \<Rightarrow> [] | Some e \<Rightarrow> [e])
               @ [PackageInstalledResponse (exitedCleanly (fst r))
                    (if exitedCleanly (fst r) then ''Package '' @ packageName @ '' installed.''
                     else ''There was an error installing '' @ packageName @ ''.'')]
           \<and> (\<not> isEnabled (log st) \<longrightarrow> world st1 = snd r))"
proof -
  define flushed where "flushed = (case delayedInitializationError st of
                       Some e \<Rightarrow> (sendResponse env e st)\<lparr>delayedInitializationError := None\<rparr>
                     | None \<Rightarrow> st)"
  define dir where
    "dir = orElse (getDirectoryOfPackageJson env fileName (world flushed)) projectRootPath"
  define pre where "pre = (if isEnabled (log flushed)
                 then logLine env (''#'' @ showInt (- 1) @ '' with arguments'' @ squote
                                   @ JSON_stringify_names env [packageName] @ squote @ ''.'')
                        flushed
                 else flushed)"
  define command where "command = npmPath st @ '' install --ignore-scripts '' @ packageName
                    @ '' --save-dev --user-agent='' @ dquote @ ''typesInstaller/''
                    @ version env @ dquote"
  define r where "r = execSync env command \<lparr>cwd = dir, stdio = None\<rparr> (world pre)"
  define answer where "answer = (\<lambda>success.
                   sendResponse env
                     (PackageInstalledResponse success
                        (if success then ''Package '' @ packageName @ '' installed.''
                         else ''There was an error installing '' @ packageName @ ''.'')))"
  have f: "sent flushed = sent st @ (case delayedInitializationError st of None \<Rightarrow> [] | Some e \<Rightarrow> [e])"
    "spawned flushed = spawned st" "npmPath flushed = npmPath st"
    "\<not> isEnabled (log st) \<Longrightarrow> log flushed = log st"
    "\<not> isEnabled (log st) \<Longrightarrow> world flushed = world st"
    unfolding flushed_def using flushed_fields [of st env] by simp_all
  have c: "npmPath flushed @ '' install --ignore-scripts '' @ join [packageName] '' ''
            @ '' --save-dev --user-agent='' @ dquote @ ''typesInstaller/'' @ version env @ dquote
           = command"
    by (simp add: command_def f)
  from installWorker_exec [where env = env and st = flushed and i = "- 1"
      and ns = "[packageName]" and d = dir]
  obtain st3 where k: "\<And>k. installWorker env (- 1) [packageName] dir k flushed
                          = k (exitedCleanly (fst r)) st3"
    and s3: "sent st3 = sent flushed"
      "spawned st3 = spawned flushed @ [(command, \<lparr>cwd = dir, stdio = None\<rparr>, fst r)]"
      "\<not> isEnabled (log flushed) \<longrightarrow> log st3 = log flushed \<and> world st3 = snd r"
    unfolding c pre_def [symmetric] r_def [symmetric] by blast
  have o: "onMessage env (InstallPackage fileName packageName projectRootPath) st
             = (Inr (), answer (exitedCleanly (fst r)) st3)"
    using k [of answer]
    by (simp add: onMessage_def Let_def flushed_def [symmetric] dir_def [symmetric]
        answer_def [symmetric])
  have "\<exists>st1.
           onMessage env (InstallPackage fileName packageName projectRootPath) st = (Inr (), st1)
           \<and> spawned st1 = spawned st @ [(command, \<lparr>cwd = dir, stdio = None\<rparr>, fst r)]
           \<and> sent st1 =
               sent st
               @ (case delayedInitializationError st of None \<Rightarrow> [] | Some e \<Rightarrow> [e])
               @ [PackageInstalledResponse (exitedCleanly (fst r))
                    (if exitedCleanly (fst r) then ''Package '' @ packageName @ '' installed.''
                     else ''There was an error installing '' @ packageName @ ''.'')]
           \<and> (\<not> isEnabled (log st) \<longrightarrow> world st1 = snd r)"
    apply (rule exI [of _ "answer (exitedCleanly (fst r)) st3"])
    using o s3 f by (auto simp add: answer_def sendResponse_quiet)
  then show ?thesis
    unfolding Let_def flushed_def dir_def pre_def command_def r_def .
qed

lemma onMessage_clean:
  assumes "delayedInitializationError st = None"
  shows "\<exists>rs. sent (snd (onMessage env req st)) = sent st @ rs
              \<and> (\<forall>r \<in> set rs. \<not> isInitializationFailed r)
              \<and> delayedInitializationError (snd (onMessage env req st)) = None"
proof (cases req)
  case (InstallPackage fileName packageName projectRootPath)
  obtain out st3 where k: "\<And>k. installWorker env (- 1) [packageName]
        (orElse (getDirectoryOfPackageJson env fileName (world st)) projectRootPath) k st
        = k (exitedCleanly out) st3"
    and s: "sent st3 = sent st" "delayedInitializationError st3 = delayedInitializationError st"
    using installWorker_once [of env "- 1" "[packageName]" _ st] by blast
  show ?thesis
    using assms InstallPackage s by (simp add: onMessage_def k)
qed (use assms in \<open>auto simp add: onMessage_def install_def closeProject_def Let_def\<close>)

lemma onMessage_pending:
  assumes "delayedInitializationError st = Some e"
  shows "\<exists>rs. sent (snd (onMessage env req st)) = sent st @ e # rs
              \<and> (\<forall>r \<in> set rs. \<not> isInitializationFailed r)
              \<and> delayedInitializationError (snd (onMessage env req st)) = None"
  using onMessage_clean [of "(sendResponse env e st)\<lparr>delayedInitializationError := None\<rparr>" env req]
  by (simp add: onMessage_flush [OF assms])

lemma processEvents_clean:
  "delayedInitializationError st = None \<Longrightarrow>
     \<exists>rs. sent (processEvents env h evs st) = sent st @ rs
          \<and> (\<forall>r \<in> set rs. \<not> isInitializationFailed r)"
proof (induction evs arbitrary: st)
  case Nil
  then show ?case by simp
next
  case (Cons ev evs)
  show ?case
  proof (cases ev)
    case Disconnect
    then show ?thesis by simp
  next
    case (Message req)
    obtain res st1 where o: "onMessage env req st = (res, st1)" by (cases "onMessage env req st")
    from onMessage_clean [OF Cons.prems, of env req] o
    obtain rs where rs: "sent st1 = sent st @ rs" "\<forall>r \<in> set rs. \<not> isInitializationFailed r"
      and d: "delayedInitializationError st1 = None" by auto
    show ?thesis
    proof (cases res)
      case (Inr u)
      from Cons.IH [OF d, of ] obtain rs' where
        "sent (processEvents env h evs st1) = sent st1 @ rs'" "\<forall>r \<in> set rs'. \<not> isInitializationFailed r"
        by blast
      with rs Message o Inr show ?thesis by (intro exI [of _ "rs @ rs'"]) auto
    next
      case (Inl e)
      show ?thesis
      proof (cases h)
        case False
        with rs Message o Inl show ?thesis by (intro exI [of _ rs]) auto
      next
        case True
        let ?unc = "logLine env (''Unhandled exception: '' @ errorToString e @ '' at ''
                                @ errorStack e) st1"
        have "delayedInitializationError ?unc = None" using d by simp
        from Cons.IH [OF this] obtain rs' where
          "sent (processEvents env h evs ?unc) = sent ?unc @ rs'" "\<forall>r \<in> set rs'. \<not> isInitializationFailed r"
          by blast
        with rs Message o Inl True show ?thesis by (intro exI [of _ "rs @ rs'"]) auto
      qed
    qed
  qed
qed

lemma onMessage_disabled:
  assumes "\<not> isEnabled (log st)"
  shows "\<not> isEnabled (log (snd (onMessage env req st)))"
proof -
  let ?st1 = "case delayedInitializationError st of
                Some e \<Rightarrow> (sendResponse env e st)\<lparr>delayedInitializationError := None\<rparr>
              | None \<Rightarrow> st"
  have d: "\<not> isEnabled (log ?st1)"
    using assms by (simp add: sendResponse_disabled split: option.splits)
  show ?thesis
  proof (cases req)
    case (Discover p)
    with sendAll_disabled [of "?st1\<lparr>world := snd (base_install env p (world ?st1))\<rparr>" env] d
    show ?thesis by (simp add: onMessage_def install_def Let_def)
  next
    case (CloseProject p)
    with sendAll_disabled [of "?st1\<lparr>world := snd (base_closeProject env p (world ?st1))\<rparr>" env] d
    show ?thesis by (simp add: onMessage_def closeProject_def Let_def)
  next
    case TypesRegistry
    with d show ?thesis by (simp add: onMessage_def Let_def sendResponse_disabled)
  next
    case (InstallPackage fileName packageName projectRootPath)
    let ?d = "orElse (getDirectoryOfPackageJson env fileName (world ?st1)) projectRootPath"
    from installWorker_once [of env "- 1" "[packageName]" ?d ?st1] d
    obtain out st3 where k: "\<And>k. installWorker env (- 1) [packageName] ?d k ?st1
          = k (exitedCleanly out) st3"
      and s: "\<not> isEnabled (log st3)"
      by blast
    from InstallPackage s show ?thesis
      by (simp add: onMessage_def Let_def k sendResponse_disabled)
  next
    case (OtherKind x)
    with d show ?thesis by (simp add: onMessage_def Let_def)
  qed
qed

lemma processEvents_disabled:
  "\<not> isEnabled (log st) \<Longrightarrow> \<not> isEnabled (log (processEvents env h evs st))"
proof (induction evs arbitrary: st)
  case Nil
  then show ?case by simp
next
  case (Cons ev evs)
  show ?case
  proof (cases ev)
    case Disconnect
    with Cons.prems show ?thesis by simp
  next
    case (Message req)
    obtain res st1 where o: "onMessage env req st = (res, st1)" by (cases "onMessage env req st")
    with onMessage_disabled [OF Cons.prems, of env req] have d: "\<not> isEnabled (log st1)" by simp
    show ?thesis
    proof (cases res)
      case (Inr u)
      with Message o Cons.IH [OF d] show ?thesis by simp
    next
      case (Inl e)
      let ?unc = "logLine env (''Unhandled exception: '' @ errorToString e @ '' at ''
                                @ errorStack e) st1"
      from logLine_disabled [OF d] have "\<not> isEnabled (log ?unc)" .
      from Cons.IH [OF this] d Message o Inl show ?thesis by (cases h) simp_all
    qed
  qed
qed

subsection \<open>The constructor\<close>

lemma beforeUpdate_fields [simp]:
  "sent (beforeUpdate env loc safe tmap npm thr log0 w0) = []"
  "delayedInitializationError (beforeUpdate env loc safe tmap npm thr log0 w0) = None"
  "spawned (beforeUpdate env loc safe tmap npm thr log0 w0) = []"
  by (simp_all add: beforeUpdate_def Let_def)

lemma updateAttempt_fields [simp]:
  "sent (snd (updateAttempt env loc st)) = sent st"
  "delayedInitializationError (snd (updateAttempt env loc st)) = delayedInitializationError st"
  by (simp_all add: updateAttempt_def)

lemma updateTypesRegistry_sent [simp]:
  "sent (updateTypesRegistry env loc st) = sent st"
proof -
  obtain out st1 where u: "updateAttempt env loc st = (out, st1)"
    by (cases "updateAttempt env loc st")
  with updateAttempt_fields(1) [of env loc st] have "sent st1 = sent st" by simp
  with u show ?thesis
    by (auto simp add: updateTypesRegistry_def split: exec_outcome.splits exec_error.splits)
qed

lemma updateTypesRegistry_delayed:
  "delayedInitializationError (updateTypesRegistry env loc st) =
     (case fst (updateAttempt env loc st) of
        Returned b \<Rightarrow> delayedInitializationError st
      | Threw (ExecError m so se) \<Rightarrow> Some (InitializationFailedResponse m))"
proof -
  obtain out st1 where u: "updateAttempt env loc st = (out, st1)"
    by (cases "updateAttempt env loc st")
  with updateAttempt_fields(2) [of env loc st]
  have "delayedInitializationError st1 = delayedInitializationError st" by simp
  with u show ?thesis
    by (auto simp add: updateTypesRegistry_def split: exec_outcome.splits exec_error.splits)
qed

lemma NodeTypingsInstaller_fields:
  "sent (NodeTypingsInstaller env loc safe tmap npm thr log0 w0) = []"
  "delayedInitializationError (NodeTypingsInstaller env loc safe tmap npm thr log0 w0) =
     delayedInitializationError
       (updateTypesRegistry env loc (beforeUpdate env loc safe tmap npm thr log0 w0))"
  by (simp_all add: NodeTypingsInstaller_def Let_def)

lemma updateAttempt_npmPath [simp]: "npmPath (snd (updateAttempt env loc st)) = npmPath st"
  by (simp add: updateAttempt_def)

lemma updateTypesRegistry_npmPath [simp]:
  "npmPath (updateTypesRegistry env loc st) = npmPath st"
proof -
  obtain out st1 where u: "updateAttempt env loc st = (out, st1)"
    by (cases "updateAttempt env loc st")
  with updateAttempt_npmPath [of env loc st] have "npmPath st1 = npmPath st" by simp
  with u show ?thesis
    by (auto simp add: updateTypesRegistry_def split: exec_outcome.splits exec_error.splits)
qed

lemma loadTypesRegistryFile_disabled:
  "\<not> isEnabled (fst lw) \<Longrightarrow> snd (loadTypesRegistryFile env p lw) = lw"
  by (simp add: loadTypesRegistryFile_def split: sum.splits)

lemma beforeUpdate_disabled:
  "\<not> isEnabled log0 \<Longrightarrow> log (beforeUpdate env loc safe tmap npm thr log0 w0) = log0"
  by (simp add: beforeUpdate_def Let_def)

lemma updateTypesRegistry_disabled:
  assumes "\<not> isEnabled (log st)"
  shows "log (updateTypesRegistry env loc st) = log st"
proof -
  obtain out st1 where u: "updateAttempt env loc st = (out, st1)"
    by (cases "updateAttempt env loc st")
  from assms have "log (snd (updateAttempt env loc st)) = log st"
    by (simp add: updateAttempt_def)
  with u have "log st1 = log st" by simp
  with u assms show ?thesis
    by (auto simp add: updateTypesRegistry_def split: exec_outcome.splits exec_error.splits)
qed

lemma NodeTypingsInstaller_disabled:
  assumes "\<not> isEnabled log0"
  shows "\<not> isEnabled (log (NodeTypingsInstaller env loc safe tmap npm thr log0 w0))"
proof -
  let ?st = "updateTypesRegistry env loc (beforeUpdate env loc safe tmap npm thr log0 w0)"
  have l: "log ?st = log0"
    using assms by (simp add: updateTypesRegistry_disabled beforeUpdate_disabled)
  with assms have "snd (loadTypesRegistryFile env (getTypesRegistryFileLocation env loc)
                          (log ?st, world ?st)) = (log ?st, world ?st)"
    by (intro loadTypesRegistryFile_disabled) simp
  with l assms show ?thesis by (simp add: NodeTypingsInstaller_def Let_def)
qed

lemma loadTypesRegistryFile_logFile [simp]:
  "logFile (fst (snd (loadTypesRegistryFile env p lw))) = logFile (fst lw)"
  by (simp add: loadTypesRegistryFile_def split: sum.splits)

lemma updateTypesRegistry_logFile [simp]:
  "logFile (log (updateTypesRegistry env loc st)) = logFile (log st)"
proof -
  obtain out st1 where u: "updateAttempt env loc st = (out, st1)"
    by (cases "updateAttempt env loc st")
  have "logFile (log (snd (updateAttempt env loc st))) = logFile (log st)"
    by (simp add: updateAttempt_def)
  with u have "logFile (log st1) = logFile (log st)" by simp
  with u show ?thesis
    by (auto simp add: updateTypesRegistry_def split: exec_outcome.splits exec_error.splits)
qed

lemma NodeTypingsInstaller_logFile [simp]:
  "logFile (log (NodeTypingsInstaller env loc safe tmap npm thr log0 w0)) = logFile log0"
proof -
  have "logFile (log (beforeUpdate env loc safe tmap npm thr log0 w0)) = logFile log0"
    by (simp add: beforeUpdate_def Let_def)
  then show ?thesis by (simp add: NodeTypingsInstaller_def Let_def)
qed

subsection \<open>Strings, maps and the walk through the ancestors\<close>

lemma indexOf_lower: "- 1 \<le> indexOf s t"
  by (induction s) (auto simp add: Let_def)

lemma indexOf_zero_iff: "indexOf s t = 0 \<longleftrightarrow> prefix t s"
  using indexOf_lower [of "tl s" t] by (cases s) (auto simp add: Let_def)

lemma indexOf_sublist: "indexOf s t \<noteq> - 1 \<longleftrightarrow> sublist t s"
proof (induction s)
  case Nil
  then show ?case by simp
next
  case (Cons c s)
  then show ?case
    using indexOf_lower [of s t] by (auto simp add: Let_def sublist_Cons_right)
qed

lemma npm_no_space: "\<not> stringContains ''npm'' '' ''"
  by (simp add: stringContains_def)

lemma join_spaces: "ns \<noteq> [] \<Longrightarrow> '' '' @ join ns '' '' = concat (map (\<lambda>n. '' '' @ n) ns)"
  by (induction ns "'' ''" rule: join.induct) simp_all

lemma update_keys:
  "fst ` set (fold (\<lambda>kv. AList.update (fst kv) (snd kv)) es m0) = fst ` set m0 \<union> fst ` set es"
  by (induction es arbitrary: m0) (auto simp add: dom_update)

lemma zip_keys: "length ks = length vs \<Longrightarrow> fst ` set (zip ks vs) = set ks"
  by (metis map_fst_zip set_map)

lemma snapshot_keys:
  "fst ` set (createMapFromTemplate template) = fst ` set (ownProperties template)"
  by (simp add: createMapFromTemplate_def update_keys)

lemma snapshot_empty_iff:
  "createMapFromTemplate template = [] \<longleftrightarrow> ownProperties template = []"
  using snapshot_keys [of template] by (metis image_is_empty set_empty)

lemma loadTypesRegistryFile_parsed:
  assumes "fileExists env path w"
    and "readFile env path w = Inr doc"
    and "JSON_parse env (case doc of None \<Rightarrow> ''undefined'' | Some t \<Rightarrow> t) = Inr content"
    and "getEntries env content = Inr template"
  shows "loadTypesRegistryFile env path (l, w) = (createMapFromTemplate template, (l, w))"
  using assms by (simp add: loadTypesRegistryFile_def parseTypesRegistryFile_def)

lemma forEachAncestorDirectory_find:
  "forEachAncestorDirectory d (\<lambda>x. if P x then Some x else None)
     = find P (ancestorDirectories d)"
proof (induction d rule: ancestorDirectories.induct)
  case (1 directory)
  show ?case
  proof (cases "getDirectoryPath directory = directory")
    case True
    then show ?thesis
      by (simp add: forEachAncestorDirectory.simps [of directory]
          ancestorDirectories.simps [of directory])
  next
    case False
    with "1" show ?thesis
      by (simp add: forEachAncestorDirectory.simps [of directory]
          ancestorDirectories.simps [of directory])
  qed
qed

section \<open>The claims\<close>

text \<open>
  Claim C1. If the update of the registry package threw during construction, the installer
  holds an initialization-failure response with the error's message; handling the first
  message, of any kind, is sending that response and clearing it, and then handling the
  message as if nothing were pending; whatever the messages that follow, the responses
  sent start with that response and hold no other initialization failure. If the update
  returned, no initialization failure is ever sent. Both hold whether or not the process
  survives a listener that raises.
\<close>

theorem pending_bootstrap_error_once:
  "(fst (updateAttempt env loc (beforeUpdate env loc safe tmap npm 5 (FileLog logFilePath) w0))
        = Threw (ExecError m so se) \<longrightarrow>
      delayedInitializationError
          (NodeTypingsInstaller env loc safe tmap npm 5 (FileLog logFilePath) w0)
        = Some (InitializationFailedResponse m)
      \<and> onMessage env req (NodeTypingsInstaller env loc safe tmap npm 5 (FileLog logFilePath) w0)
          = onMessage env req
              ((sendResponse env (InitializationFailedResponse m)
                  (NodeTypingsInstaller env loc safe tmap npm 5 (FileLog logFilePath) w0))
                 \<lparr>delayedInitializationError := None\<rparr>)
      \<and> (\<exists>rs. sent (main env logFilePath loc safe tmap npm (Message req # evs) w0)
                 = InitializationFailedResponse m # rs
               \<and> (\<forall>r \<in> set rs. \<not> isInitializationFailed r)))
   \<and> (fst (updateAttempt env loc (beforeUpdate env loc safe tmap npm 5 (FileLog logFilePath) w0))
        = Returned b \<longrightarrow>
      (\<forall>r \<in> set (sent (main env logFilePath loc safe tmap npm evs w0)).
         \<not> isInitializationFailed r))"
proof (intro conjI impI)
  let ?pre = "beforeUpdate env loc safe tmap npm 5 (FileLog logFilePath) w0"
  let ?ins = "NodeTypingsInstaller env loc safe tmap npm 5 (FileLog logFilePath) w0"
  let ?h = "isEnabled (FileLog logFilePath)"
  have s: "sent ?ins = []" by (simp add: NodeTypingsInstaller_fields)
  {
    assume t: "fst (updateAttempt env loc ?pre) = Threw (ExecError m so se)"
    then show d: "delayedInitializationError ?ins = Some (InitializationFailedResponse m)"
      by (simp add: NodeTypingsInstaller_fields updateTypesRegistry_delayed)
    then show "onMessage env req ?ins =
            onMessage env req
              ((sendResponse env (InitializationFailedResponse m) ?ins)
                 \<lparr>delayedInitializationError := None\<rparr>)"
      by (rule onMessage_flush)
    obtain res st1 where o: "onMessage env req ?ins = (res, st1)"
      by (cases "onMessage env req ?ins")
    from onMessage_pending [OF d, of env req] o s
    obtain rs where rs: "sent st1 = InitializationFailedResponse m # rs"
        "\<forall>r \<in> set rs. \<not> isInitializationFailed r"
      and d1: "delayedInitializationError st1 = None" by auto
    let ?unc = "logLine env (''Unhandled exception: '' @ errorToString (projl res) @ '' at ''
                                  @ errorStack (projl res)) st1"
    have d2: "delayedInitializationError ?unc = None" using d1 by simp
    from processEvents_clean [OF d1, of env ?h evs] obtain rs1 where
      rs1: "sent (processEvents env ?h evs st1) = sent st1 @ rs1"
        "\<forall>r \<in> set rs1. \<not> isInitializationFailed r" by blast
    from processEvents_clean [OF d2, of env ?h evs] obtain rs2 where
      rs2: "sent (processEvents env ?h evs ?unc) = sent ?unc @ rs2"
        "\<forall>r \<in> set rs2. \<not> isInitializationFailed r" by blast
    show "\<exists>rs. sent (main env logFilePath loc safe tmap npm (Message req # evs) w0)
                     = InitializationFailedResponse m # rs
                   \<and> (\<forall>r \<in> set rs. \<not> isInitializationFailed r)"
    proof (cases res)
      case (Inr u)
      with o rs rs1 show ?thesis
        by (intro exI [of _ "rs @ rs1"]) (auto simp add: main_def Let_def)
    next
      case (Inl e)
      with o rs rs1 rs2 show ?thesis
        by (cases ?h) (auto simp add: main_def Let_def)
    qed
  }
  {
    assume "fst (updateAttempt env loc ?pre) = Returned b"
    then have d: "delayedInitializationError ?ins = None"
      by (simp add: NodeTypingsInstaller_fields updateTypesRegistry_delayed)
    from processEvents_clean [OF d, of env ?h evs] s
    show "\<forall>r \<in> set (sent (main env logFilePath loc safe tmap npm evs w0)).
               \<not> isInitializationFailed r"
      by (auto simp add: main_def Let_def)
  }
qed

theorem pending_bootstrap_error_once_witness:
  "fst (updateAttempt testPlatform ''/cache''
          (beforeUpdate testPlatform ''/cache'' None None (Some ''npm'') 5 (FileLog None)
             offlineWorld))
     = Threw (ExecError ''network unreachable'' BufNull BufNull)
   \<and> (\<exists>rs. sent (main testPlatform None ''/cache'' None None (Some ''npm'')
                   [Message TypesRegistry, Message (OtherKind ''ping'')] offlineWorld)
              = InitializationFailedResponse ''network unreachable'' # rs
            \<and> filter isInitializationFailed rs = [])
   \<and> fst (updateAttempt testPlatform ''/cache''
            (beforeUpdate testPlatform ''/cache'' None None (Some ''npm'') 5 (FileLog None)
               registryWorld))
       = Returned (Buffer [])
   \<and> filter isInitializationFailed
         (sent (main testPlatform None ''/cache'' None None (Some ''npm'')
                  [Message TypesRegistry, Message (OtherKind ''ping'')] registryWorld)) = []"
proof -
  have h: "fst (updateAttempt testPlatform ''/cache''
          (beforeUpdate testPlatform ''/cache'' None None (Some ''npm'') 5 (FileLog None)
             offlineWorld))
     = Threw (ExecError ''network unreachable'' BufNull BufNull)"
    by code_simp
  have g: "fst (updateAttempt testPlatform ''/cache''
            (beforeUpdate testPlatform ''/cache'' None None (Some ''npm'') 5 (FileLog None)
               registryWorld))
       = Returned (Buffer [])"
    by code_simp
  from pending_bootstrap_error_once
         [of testPlatform "''/cache''" None None "Some ''npm''" None offlineWorld
            "''network unreachable''" BufNull BufNull TypesRegistry
            "[Message (OtherKind ''ping'')]",
          THEN conjunct1, rule_format, OF h]
  have failed: "\<exists>rs. sent (main testPlatform None ''/cache'' None None (Some ''npm'')
                   [Message TypesRegistry, Message (OtherKind ''ping'')] offlineWorld)
              = InitializationFailedResponse ''network unreachable'' # rs
            \<and> filter isInitializationFailed rs = []"
    by (simp add: filter_empty_conv)
  from pending_bootstrap_error_once
         [of testPlatform "''/cache''" None None "Some ''npm''" None registryWorld _ _ _ _
            "[Message TypesRegistry, Message (OtherKind ''ping'')]" "Buffer []",
          THEN conjunct2, THEN mp, OF g]
  have succeeded: "filter isInitializationFailed
         (sent (main testPlatform None ''/cache'' None None (Some ''npm'')
                  [Message TypesRegistry, Message (OtherKind ''ping'')] registryWorld)) = []"
    by (simp add: filter_empty_conv)
  from h g failed succeeded show ?thesis by blast
qed

text \<open>
  Claim C2. The install worker calls \<open>execSync\<close> with its command line, in the world
  as its first log line left it, and hands its continuation, exactly once and before it
  returns, the flag that says whether that call exited cleanly; it records the call,
  sends nothing itself and raises nothing; with logging off the world it leaves is the
  one \<open>execSync\<close> left. Handling an \<^verbatim>\<open>installPackage\<close> message returns normally and
  sends, after the pending bootstrap error if there is one, exactly one package-installed
  response: its flag is true exactly when the \<open>execSync\<close> call for that package, in the
  resolved directory, exited cleanly, and its message is \<^verbatim>\<open>Package <name> installed.\<close>
  or \<^verbatim>\<open>There was an error installing <name>.\<close> accordingly.
\<close>

theorem installPackage_one_response:
  "(let pre = (if isEnabled (log st)
               then logLine env (''#'' @ showInt i @ '' with arguments'' @ squote
                                 @ JSON_stringify_names env ns @ squote @ ''.'') st
               else st);
        command = npmPath st @ '' install --ignore-scripts '' @ join ns '' ''
                  @ '' --save-dev --user-agent='' @ dquote @ ''typesInstaller/''
                  @ version env @ dquote;
        r = execSync env command \<lparr>cwd = d, stdio = None\<rparr> (world pre)
    in \<exists>st3.
         (\<forall>k. installWorker env i ns d k st = k (exitedCleanly (fst r)) st3)
         \<and> spawned st3 = spawned st @ [(command, \<lparr>cwd = d, stdio = None\<rparr>, fst r)]
         \<and> sent st3 = sent st
         \<and> (\<not> isEnabled (log st) \<longrightarrow> world st3 = snd r))
   \<and> (let flushed = (case delayedInitializationError st of
                       Some e \<Rightarrow> (sendResponse env e st)\<lparr>delayedInitializationError := None\<rparr>
                     | None \<Rightarrow> st);
          dir = orElse (getDirectoryOfPackageJson env fileName (world flushed)) projectRootPath;
          pre = (if isEnabled (log flushed)
                 then logLine env (''#'' @ showInt (- 1) @ '' with arguments'' @ squote
                                   @ JSON_stringify_names env [packageName] @ squote @ ''.'')
                        flushed
                 else flushed);
          command = npmPath st @ '' install --ignore-scripts '' @ packageName
                    @ '' --save-dev --user-agent='' @ dquote @ ''typesInstaller/''
                    @ version env @ dquote;
          r = execSync env command \<lparr>cwd = dir, stdio = None\<rparr> (world pre)
      in \<exists>st1.
           onMessage env (InstallPackage fileName packageName projectRootPath) st = (Inr (), st1)
           \<and> spawned st1 = spawned st @ [(command, \<lparr>cwd = dir, stdio = None\<rparr>, fst r)]
           \<and> sent st1 =
               sent st
               @ (case delayedInitializationError st of None \<Rightarrow> [] | Some e \<Rightarrow> [e])
               @ [PackageInstalledResponse (exitedCleanly (fst r))
                    (if exitedCleanly (fst r) then ''Package '' @ packageName @ '' installed.''
                     else ''There was an error installing '' @ packageName @ ''.'')]
           \<and> (\<not> isEnabled (log st) \<longrightarrow> world st1 = snd r))"
proof (rule conjI)
  from installWorker_exec [where env = env and i = i and ns = ns and d = d and st = st]
  show "(let pre = (if isEnabled (log st)
               then logLine env (''#'' @ showInt i @ '' with arguments'' @ squote
                                 @ JSON_stringify_names env ns @ squote @ ''.'') st
               else st);
        command = npmPath st @ '' install --ignore-scripts '' @ join ns '' ''
                  @ '' --save-dev --user-agent='' @ dquote @ ''typesInstaller/''
                  @ version env @ dquote;
        r = execSync env command \<lparr>cwd = d, stdio = None\<rparr> (world pre)
    in \<exists>st3.
         (\<forall>k. installWorker env i ns d k st = k (exitedCleanly (fst r)) st3)
         \<and> spawned st3 = spawned st @ [(command, \<lparr>cwd = d, stdio = None\<rparr>, fst r)]
         \<and> sent st3 = sent st
         \<and> (\<not> isEnabled (log st) \<longrightarrow> world st3 = snd r))"
    unfolding Let_def by blast
next
  show "(let flushed = (case delayedInitializationError st of
                       Some e \<Rightarrow> (sendResponse env e st)\<lparr>delayedInitializationError := None\<rparr>
                     | None \<Rightarrow> st);
          dir = orElse (getDirectoryOfPackageJson env fileName (world flushed)) projectRootPath;
          pre = (if isEnabled (log flushed)
                 then logLine env (''#'' @ showInt (- 1) @ '' with arguments'' @ squote
                                   @ JSON_stringify_names env [packageName] @ squote @ ''.'')
                        flushed
                 else flushed);
          command = npmPath st @ '' install --ignore-scripts '' @ packageName
                    @ '' --save-dev --user-agent='' @ dquote @ ''typesInstaller/''
                    @ version env @ dquote;
          r = execSync env command \<lparr>cwd = dir, stdio = None\<rparr> (world pre)
      in \<exists>st1.
           onMessage env (InstallPackage fileName packageName projectRootPath) st = (Inr (), st1)
           \<and> spawned st1 = spawned st @ [(command, \<lparr>cwd = dir, stdio = None\<rparr>, fst r)]
           \<and> sent st1 =
               sent st
               @ (case delayedInitializationError st of None \<Rightarrow> [] | Some e \<Rightarrow> [e])
               @ [PackageInstalledResponse (exitedCleanly (fst r))
                    (if exitedCleanly (fst r) then ''Package '' @ packageName @ '' installed.''
                     else ''There was an error installing '' @ packageName @ ''.'')]
           \<and> (\<not> isEnabled (log st) \<longrightarrow> world st1 = snd r))"
    by (rule onMessage_installPackage)
qed

theorem installPackage_one_response_witness:
  "sent (snd (onMessage testPlatform (InstallPackage ''/a/b/c/file.ts'' ''react'' None)
                (NodeTypingsInstaller testPlatform ''/cache'' None None (Some ''npm'') 5
                   (FileLog None) reactFailsWorld)))
     = [PackageInstalledResponse False ''There was an error installing react.'']
   \<and> sent (snd (onMessage testPlatform (InstallPackage ''/a/b/c/file.ts'' ''react'' None)
                (NodeTypingsInstaller testPlatform ''/cache'' None None (Some ''npm'') 5
                   (FileLog None) registryWorld)))
     = [PackageInstalledResponse True ''Package react installed.'']"
proof -
  let ?bad = "NodeTypingsInstaller testPlatform ''/cache'' None None (Some ''npm'') 5
               (FileLog None) reactFailsWorld :: (testWorld, unit) installer"
  let ?good = "NodeTypingsInstaller testPlatform ''/cache'' None None (Some ''npm'') 5
               (FileLog None) registryWorld :: (testWorld, unit) installer"
  have b: "delayedInitializationError ?bad = None" "sent ?bad = []"
    "delayedInitializationError ?good = None" "sent ?good = []"
    by code_simp+
  have e1: "(let flushed = (case delayedInitializationError ?bad of
                       Some e \<Rightarrow> (sendResponse testPlatform e ?bad)\<lparr>delayedInitializationError := None\<rparr>
                     | None \<Rightarrow> ?bad);
          dir = orElse (getDirectoryOfPackageJson testPlatform ''/a/b/c/file.ts'' (world flushed)) None;
          pre = (if isEnabled (log flushed)
                 then logLine testPlatform (''#'' @ showInt (- 1) @ '' with arguments'' @ squote
                                   @ JSON_stringify_names testPlatform [''react''] @ squote @ ''.'')
                        flushed
                 else flushed);
          command = npmPath ?bad @ '' install --ignore-scripts '' @ ''react''
                    @ '' --save-dev --user-agent='' @ dquote @ ''typesInstaller/''
                    @ version testPlatform @ dquote;
          r = execSync testPlatform command \<lparr>cwd = dir, stdio = None\<rparr> (world pre)
      in exitedCleanly (fst r) = False)"
    by code_simp
  have e2: "(let flushed = (case delayedInitializationError ?good of
                       Some e \<Rightarrow> (sendResponse testPlatform e ?good)\<lparr>delayedInitializationError := None\<rparr>
                     | None \<Rightarrow> ?good);
          dir = orElse (getDirectoryOfPackageJson testPlatform ''/a/b/c/file.ts'' (world flushed)) None;
          pre = (if isEnabled (log flushed)
                 then logLine testPlatform (''#'' @ showInt (- 1) @ '' with arguments'' @ squote
                                   @ JSON_stringify_names testPlatform [''react''] @ squote @ ''.'')
                        flushed
                 else flushed);
          command = npmPath ?good @ '' install --ignore-scripts '' @ ''react''
                    @ '' --save-dev --user-agent='' @ dquote @ ''typesInstaller/''
                    @ version testPlatform @ dquote;
          r = execSync testPlatform command \<lparr>cwd = dir, stdio = None\<rparr> (world pre)
      in exitedCleanly (fst r) = True)"
    by code_simp
  from installPackage_one_response
         [where env = testPlatform and st = ?bad and fileName = "''/a/b/c/file.ts''"
            and packageName = "''react''" and projectRootPath = None,
          THEN conjunct2, unfolded Let_def]
    e1 [unfolded Let_def] b
  have bad: "sent (snd (onMessage testPlatform (InstallPackage ''/a/b/c/file.ts'' ''react'' None) ?bad))
     = [PackageInstalledResponse False ''There was an error installing react.'']"
    by auto
  from installPackage_one_response
         [where env = testPlatform and st = ?good and fileName = "''/a/b/c/file.ts''"
            and packageName = "''react''" and projectRootPath = None,
          THEN conjunct2, unfolded Let_def]
    e2 [unfolded Let_def] b
  have good: "sent (snd (onMessage testPlatform (InstallPackage ''/a/b/c/file.ts'' ''react'' None) ?good))
     = [PackageInstalledResponse True ''Package react installed.'']"
    by auto
  from bad good show ?thesis by simp
qed

text \<open>
  Claim C3. When the registry file exists, is read, parses as a JSON object, and its
  \<^verbatim>\<open>entries\<close> property is an object, the snapshot loaded has exactly the names of
  \<^verbatim>\<open>entries\<close> as its keys.
\<close>

theorem registry_snapshot_keys:
  assumes "fileExists env path (snd lw)"
    and "readFile env path (snd lw) = Inr (Some text)"
    and "JSON_parse env text = Inr (JObject kvs)"
    and "map_of kvs ''entries'' = Some (JObject es)"
  shows "set (map fst (fst (loadTypesRegistryFile env path lw))) = set (map fst es)"
  using assms
  by (simp add: loadTypesRegistryFile_def parseTypesRegistryFile_def createMapFromTemplate_def
      update_keys)

theorem registry_snapshot_keys_witness:
  "fileExists testPlatform ''/cache/node_modules/types-registry/index.json'' registryWorld
   \<and> set (map fst (fst (loadTypesRegistryFile testPlatform
                          ''/cache/node_modules/types-registry/index.json''
                          (FileLog None, registryWorld)))) = {''lodash''}"
proof -
  let ?p = "''/cache/node_modules/types-registry/index.json''"
  have h1: "fileExists testPlatform ?p (snd (FileLog None, registryWorld))" by code_simp
  have h2: "readFile testPlatform ?p (snd (FileLog None, registryWorld)) = Inr (Some lodashRegistry)"
    by code_simp
  have h3: "JSON_parse testPlatform lodashRegistry
              = Inr (JObject [(''entries'', JObject [(''lodash'', JNull)])])"
    by code_simp
  have h4: "map_of [(''entries'', JObject [(''lodash'', JNull)])] ''entries''
              = Some (JObject [(''lodash'', JNull)])"
    by simp
  from registry_snapshot_keys [OF h1 h2 h3 h4] h1 show ?thesis by simp
qed

text \<open>
  Claim C4, as the spec states it: a file that exists but does not have the shape
  \<^verbatim>\<open>{entries: ...}\<close> loads as an empty snapshot. It fails for the document
  \<^verbatim>\<open>{"entries":["lodash","react"]}\<close>: nothing raises, nothing checks the shape, and the
  snapshot has the keys \<^verbatim>\<open>0\<close> and \<^verbatim>\<open>1\<close>.
\<close>

theorem registry_wrong_shape_counterexample:
  "fileExists testPlatform ''/cache/node_modules/types-registry/index.json'' arrayRegistryWorld
   \<and> readFile testPlatform ''/cache/node_modules/types-registry/index.json'' arrayRegistryWorld
       = Inr (Some arrayRegistry)
   \<and> JSON_parse testPlatform arrayRegistry
       = Inr (JObject [(''entries'', JArray [JString ''lodash'', JString ''react''])])
   \<and> fst (loadTypesRegistryFile testPlatform ''/cache/node_modules/types-registry/index.json''
            (FileLog None, arrayRegistryWorld))
       = [(''0'', JString ''lodash''), (''1'', JString ''react'')]"
  by code_simp

text \<open>
  Claim C4, amended. The loader returns a snapshot on every path and raises nothing. When
  the file does not exist, or reading it raises, or \<^verbatim>\<open>JSON.parse\<close> raises, or the
  document is \<^verbatim>\<open>null\<close> (so that reading \<^verbatim>\<open>entries\<close> raises), the snapshot is empty, and
  the logger and the world are left as they were unless logging is enabled, in which case
  one line is written. Any other document is accepted without a check and nothing is
  logged: the snapshot is empty when the document is not an object or its \<^verbatim>\<open>entries\<close>
  is absent, \<^verbatim>\<open>null\<close>, a boolean or a number; it has the names of \<^verbatim>\<open>entries\<close> when that
  is an object; and it has the indices as keys when \<^verbatim>\<open>entries\<close> is an array or a string.
\<close>

theorem registry_load_never_raises:
  "((\<not> fileExists env path w
     \<or> readFile env path w = Inl e
     \<or> (readFile env path w = Inr doc
         \<and> JSON_parse env (case doc of None \<Rightarrow> ''undefined'' | Some t \<Rightarrow> t) = Inl e)
     \<or> (readFile env path w = Inr doc
         \<and> JSON_parse env (case doc of None \<Rightarrow> ''undefined'' | Some t \<Rightarrow> t) = Inr JNull))
    \<longrightarrow> fst (loadTypesRegistryFile env path (l, w)) = []
        \<and> (\<exists>t. snd (loadTypesRegistryFile env path (l, w))
                  = (if isEnabled l then writeLine env t (l, w) else (l, w))))
   \<and> (fileExists env path w
       \<and> readFile env path w = Inr doc
       \<and> JSON_parse env (case doc of None \<Rightarrow> ''undefined'' | Some t \<Rightarrow> t) = Inr content
       \<and> content \<noteq> JNull
    \<longrightarrow> snd (loadTypesRegistryFile env path (l, w)) = (l, w)
        \<and> ((\<forall>kvs. content \<noteq> JObject kvs)
             \<longrightarrow> fst (loadTypesRegistryFile env path (l, w)) = [])
        \<and> (content = JObject kvs
             \<and> (map_of kvs ''entries'' = None \<or> map_of kvs ''entries'' = Some JNull
                 \<or> map_of kvs ''entries'' = Some (JBool b)
                 \<or> map_of kvs ''entries'' = Some (JNumber n))
             \<longrightarrow> fst (loadTypesRegistryFile env path (l, w)) = [])
        \<and> (content = JObject kvs \<and> map_of kvs ''entries'' = Some (JObject es)
             \<longrightarrow> set (map fst (fst (loadTypesRegistryFile env path (l, w)))) = set (map fst es))
        \<and> (content = JObject kvs \<and> map_of kvs ''entries'' = Some (JArray xs)
             \<longrightarrow> set (map fst (fst (loadTypesRegistryFile env path (l, w))))
                 = set (map showNat [0..<length xs]))
        \<and> (content = JObject kvs \<and> map_of kvs ''entries'' = Some (JString str)
             \<longrightarrow> set (map fst (fst (loadTypesRegistryFile env path (l, w))))
                 = set (map showNat [0..<length str])))"
proof (intro conjI impI)
  assume "\<not> fileExists env path w
     \<or> readFile env path w = Inl e
     \<or> (readFile env path w = Inr doc
         \<and> JSON_parse env (case doc of None \<Rightarrow> ''undefined'' | Some t \<Rightarrow> t) = Inl e)
     \<or> (readFile env path w = Inr doc
         \<and> JSON_parse env (case doc of None \<Rightarrow> ''undefined'' | Some t \<Rightarrow> t) = Inr JNull)"
  then show "fst (loadTypesRegistryFile env path (l, w)) = []"
    and "\<exists>t. snd (loadTypesRegistryFile env path (l, w))
                  = (if isEnabled l then writeLine env t (l, w) else (l, w))"
    by (auto simp add: loadTypesRegistryFile_def parseTypesRegistryFile_def createMap_def)
next
  assume a: "fileExists env path w
       \<and> readFile env path w = Inr doc
       \<and> JSON_parse env (case doc of None \<Rightarrow> ''undefined'' | Some t \<Rightarrow> t) = Inr content
       \<and> content \<noteq> JNull"
  then obtain template where t: "getEntries env content = Inr template"
    by (cases content) auto
  have ld: "loadTypesRegistryFile env path (l, w) = (createMapFromTemplate template, (l, w))"
    using a t by (intro loadTypesRegistryFile_parsed) auto
  show "snd (loadTypesRegistryFile env path (l, w)) = (l, w)" by (simp add: ld)
  {
    assume "\<forall>kvs. content \<noteq> JObject kvs"
    with a t have "ownProperties template = []" by (cases content) auto
    then show "fst (loadTypesRegistryFile env path (l, w)) = []"
      by (simp add: ld snapshot_empty_iff)
  }
  {
    assume "content = JObject kvs
             \<and> (map_of kvs ''entries'' = None \<or> map_of kvs ''entries'' = Some JNull
                 \<or> map_of kvs ''entries'' = Some (JBool b)
                 \<or> map_of kvs ''entries'' = Some (JNumber n))"
    with t have "ownProperties template = []" by auto
    then show "fst (loadTypesRegistryFile env path (l, w)) = []"
      by (simp add: ld snapshot_empty_iff)
  }
  {
    assume "content = JObject kvs \<and> map_of kvs ''entries'' = Some (JObject es)"
    with t have "ownProperties template = es" by auto
    then show "set (map fst (fst (loadTypesRegistryFile env path (l, w)))) = set (map fst es)"
      using snapshot_keys [of template] by (simp add: ld)
  }
  {
    assume "content = JObject kvs \<and> map_of kvs ''entries'' = Some (JArray xs)"
    with t have "ownProperties template = zip (map showNat [0..<length xs]) xs" by auto
    then show "set (map fst (fst (loadTypesRegistryFile env path (l, w))))
                 = set (map showNat [0..<length xs])"
      using snapshot_keys [of template] by (simp add: ld zip_keys del: showNat.simps)
  }
  {
    assume "content = JObject kvs \<and> map_of kvs ''entries'' = Some (JString str)"
    with t have "ownProperties template
                   = zip (map showNat [0..<length str]) (map (\<lambda>c. JString [c]) str)" by auto
    then show "set (map fst (fst (loadTypesRegistryFile env path (l, w))))
                 = set (map showNat [0..<length str])"
      using snapshot_keys [of template] by (simp add: ld zip_keys del: showNat.simps)
  }
qed

theorem registry_load_never_raises_witness:
  "\<not> fileExists testPlatform ''/cache/node_modules/types-registry/index.json'' offlineWorld
   \<and> fst (loadTypesRegistryFile testPlatform ''/cache/node_modules/types-registry/index.json''
            (FileLog None, offlineWorld)) = []
   \<and> fileExists testPlatform ''/cache/node_modules/types-registry/index.json''
         truncatedRegistryWorld
   \<and> fst (loadTypesRegistryFile testPlatform ''/cache/node_modules/types-registry/index.json''
            (FileLog None, truncatedRegistryWorld)) = []
   \<and> fileExists testPlatform ''/cache/node_modules/types-registry/index.json''
         arrayRegistryWorld
   \<and> set (map fst (fst (loadTypesRegistryFile testPlatform
                          ''/cache/node_modules/types-registry/index.json''
                          (FileLog None, arrayRegistryWorld))))
       = set (map showNat [0..<length [JString ''lodash'', JString ''react'']])"
proof -
  let ?p = "''/cache/node_modules/types-registry/index.json''"
  have h: "\<not> fileExists testPlatform ?p offlineWorld" by code_simp
  have g: "fileExists testPlatform ?p truncatedRegistryWorld" by code_simp
  have r: "readFile testPlatform ?p truncatedRegistryWorld = Inr (Some ''{'')" by code_simp
  have j: "JSON_parse testPlatform (case Some ''{'' of None \<Rightarrow> ''undefined'' | Some t \<Rightarrow> t)
             = Inl (JsError ''SyntaxError'' ''Unexpected token'' [])" by code_simp
  have a: "fileExists testPlatform ?p arrayRegistryWorld
       \<and> readFile testPlatform ?p arrayRegistryWorld = Inr (Some arrayRegistry)
       \<and> JSON_parse testPlatform (case Some arrayRegistry of None \<Rightarrow> ''undefined'' | Some t \<Rightarrow> t)
           = Inr (JObject [(''entries'', JArray [JString ''lodash'', JString ''react''])])
       \<and> JObject [(''entries'', JArray [JString ''lodash'', JString ''react''])] \<noteq> JNull"
    by code_simp
  have s: "JObject [(''entries'', JArray [JString ''lodash'', JString ''react''])]
             = JObject [(''entries'', JArray [JString ''lodash'', JString ''react''])]
           \<and> map_of [(''entries'', JArray [JString ''lodash'', JString ''react''])] ''entries''
               = Some (JArray [JString ''lodash'', JString ''react''])"
    by simp
  from registry_load_never_raises
         [where env = testPlatform and path = ?p and w = offlineWorld and l = "FileLog None",
          THEN conjunct1] h
  have missing: "fst (loadTypesRegistryFile testPlatform ?p (FileLog None, offlineWorld)) = []"
    by blast
  from registry_load_never_raises
         [where env = testPlatform and path = ?p and w = truncatedRegistryWorld
            and l = "FileLog None" and doc = "Some ''{''"
            and e = "JsError ''SyntaxError'' ''Unexpected token'' []", THEN conjunct1] r j
  have malformed: "fst (loadTypesRegistryFile testPlatform ?p (FileLog None, truncatedRegistryWorld))
                     = []"
    by blast
  from registry_load_never_raises
         [where env = testPlatform and path = ?p and w = arrayRegistryWorld
            and l = "FileLog None" and doc = "Some arrayRegistry"
            and content = "JObject [(''entries'', JArray [JString ''lodash'', JString ''react''])]"
            and kvs = "[(''entries'', JArray [JString ''lodash'', JString ''react''])]"
            and xs = "[JString ''lodash'', JString ''react'']",
          THEN conjunct2, THEN mp, OF a,
          THEN conjunct2, THEN conjunct2, THEN conjunct2, THEN conjunct2, THEN conjunct1,
          THEN mp, OF s]
  have array: "set (map fst (fst (loadTypesRegistryFile testPlatform ?p
                                    (FileLog None, arrayRegistryWorld))))
                 = set (map showNat [0..<length [JString ''lodash'', JString ''react'']])" .
  from h g a missing malformed array show ?thesis by blast
qed

text \<open>
  Claim C5. The resolver gives the first directory, in the chain that starts at the
  directory containing the file and goes upward to the root, in which \<^verbatim>\<open>package.json\<close>
  exists, and it gives nothing when no directory of the chain has it. For
  \<^verbatim>\<open>/a/b/c/file.ts\<close> with \<^verbatim>\<open>package.json\<close> only in \<^verbatim>\<open>/a/b\<close>, it gives \<^verbatim>\<open>/a/b\<close>.
\<close>

theorem package_root_nearest:
  "getDirectoryOfPackageJson env fileName w
     = find (\<lambda>d. fileExists env (combinePaths d ''package.json'') w)
         (ancestorDirectories (getDirectoryPath fileName))"
  by (simp add: getDirectoryOfPackageJson_def forEachAncestorDirectory_find)

theorem package_root_nearest_witness:
  "getDirectoryOfPackageJson testPlatform ''/a/b/c/file.ts'' registryWorld = Some ''/a/b''
   \<and> getDirectoryOfPackageJson testPlatform ''/a/b/c/file.ts'' offlineWorld = None"
  unfolding package_root_nearest by code_simp

text \<open>
  Claim C6, as the spec states it: on a message whose kind is none of the four, the
  process aborts. It fails when a log file is configured: the listener of
  \<^verbatim>\<open>uncaughtException\<close> (lines 214-218) is then installed, the failure is written to the
  log, and the process goes on: the \<^verbatim>\<open>typesRegistry\<close> message that follows is answered.
\<close>

theorem unknown_kind_abort_counterexample:
  "isEnabled (FileLog (Some ''/var/log/ti.log''))
   \<and> fst (onMessage testPlatform (OtherKind ''ping'')
            (NodeTypingsInstaller testPlatform ''/cache'' None None (Some ''npm'') 5
               (FileLog (Some ''/var/log/ti.log'')) registryWorld))
       = Inl (JsError ''Error'' ''Debug Failure.'' [])
   \<and> sent (main testPlatform (Some ''/var/log/ti.log'') ''/cache'' None None (Some ''npm'')
              [Message (OtherKind ''ping''), Message TypesRegistry] registryWorld)
       = [TypesRegistryResponse [(''lodash'', JNull)]]"
  by code_simp

text \<open>
  Claim C6, amended. On a message whose kind is none of the four, the listener raises the
  assertion failure: it does not return normally, and apart from the pending bootstrap
  error it sends nothing and runs nothing. The process is started with the listener of
  \<^verbatim>\<open>uncaughtException\<close> installed exactly when a log file is configured. Without a log
  file the process ends at that message. With one, the failure is handed to the logger's
  \<open>writeLine\<close>, which tries to append it to the log file and swallows a failed append,
  and the process goes on with the next event. On a message of one of the four kinds the
  listener returns normally, so that when every message has a legal kind the failure is
  never reached and the two processes behave alike.
\<close>

theorem unknown_kind_asserts:
  "(\<not> legalKind req \<longrightarrow>
      fst (onMessage env req st) = Inl (assertionFailure env)
      \<and> sent (snd (onMessage env req st))
          = sent st @ (case delayedInitializationError st of None \<Rightarrow> [] | Some e \<Rightarrow> [e])
      \<and> spawned (snd (onMessage env req st)) = spawned st
      \<and> processEvents env False (Message req # evs) st = snd (onMessage env req st)
      \<and> processEvents env True (Message req # evs) st
          = processEvents env True evs
              (logLine env (''Unhandled exception: '' @ errorToString (assertionFailure env)
                            @ '' at '' @ errorStack (assertionFailure env))
                 (snd (onMessage env req st)))
      \<and> main env None loc safe tmap npm (Message req # evs) w0
          = snd (onMessage env req (NodeTypingsInstaller env loc safe tmap npm 5 (FileLog None) w0))
      \<and> main env (Some logPath) loc safe tmap npm (Message req # evs) w0
          = processEvents env True evs
              (logLine env (''Unhandled exception: '' @ errorToString (assertionFailure env)
                            @ '' at '' @ errorStack (assertionFailure env))
                 (snd (onMessage env req
                         (NodeTypingsInstaller env loc safe tmap npm 5 (FileLog (Some logPath)) w0))))
      \<and> world (logLine env (''Unhandled exception: '' @ errorToString (assertionFailure env)
                            @ '' at '' @ errorStack (assertionFailure env))
                 (snd (onMessage env req
                         (NodeTypingsInstaller env loc safe tmap npm 5 (FileLog (Some logPath)) w0))))
          = snd (appendFileSync env (Some logPath)
                   ((''Unhandled exception: '' @ errorToString (assertionFailure env)
                     @ '' at '' @ errorStack (assertionFailure env)) @ newLine env)
                   (world (snd (onMessage env req
                      (NodeTypingsInstaller env loc safe tmap npm 5 (FileLog (Some logPath)) w0))))))
   \<and> (legalKind req \<longrightarrow> fst (onMessage env req st) = Inr ())
   \<and> ((\<forall>ev \<in> set evs. \<forall>r. ev = Message r \<longrightarrow> legalKind r) \<longrightarrow>
        processEvents env True evs st = processEvents env False evs st)
   \<and> main env logFilePath loc safe tmap npm events w0
       = processEvents env (logFilePath \<noteq> None) events
           (NodeTypingsInstaller env loc safe tmap npm 5 (FileLog logFilePath) w0)"
proof (intro conjI impI)
  show m: "main env logFilePath loc safe tmap npm events w0
       = processEvents env (logFilePath \<noteq> None) events
           (NodeTypingsInstaller env loc safe tmap npm 5 (FileLog logFilePath) w0)"
    for logFilePath events
    by (simp add: main_def Let_def isEnabled_def FileLog_def)
  have legal: "\<And>r s. legalKind r \<Longrightarrow> fst (onMessage env r s) = Inr ()"
    by (case_tac r) (simp_all add: onMessage_def Let_def)
  {
    assume "legalKind req"
    then show "fst (onMessage env req st) = Inr ()" by (rule legal)
  }
  {
    assume "\<forall>ev \<in> set evs. \<forall>r. ev = Message r \<longrightarrow> legalKind r"
    then show "processEvents env True evs st = processEvents env False evs st"
    proof (induction evs arbitrary: st)
      case Nil
      then show ?case by simp
    next
      case (Cons ev evs)
      show ?case
      proof (cases ev)
        case Disconnect
        then show ?thesis by simp
      next
        case (Message r)
        with Cons.prems have "legalKind r" by simp
        from legal [OF this, of st] obtain st1 where "onMessage env r st = (Inr (), st1)"
          by (cases "onMessage env r st") auto
        with Message Cons show ?thesis by simp
      qed
    qed
  }
  assume "\<not> legalKind req"
  then obtain k where k: "req = OtherKind k" by (cases req) auto
  have r: "fst (onMessage env req s) = Inl (assertionFailure env)" for s
    using k by (simp add: onMessage_def Debug_assertNever_def)
  show "fst (onMessage env req st) = Inl (assertionFailure env)" by (rule r)
  from k show "sent (snd (onMessage env req st))
          = sent st @ (case delayedInitializationError st of None \<Rightarrow> [] | Some e \<Rightarrow> [e])"
    by (simp add: onMessage_def split: option.splits)
  from k show "spawned (snd (onMessage env req st)) = spawned st"
    by (simp add: onMessage_def split: option.splits)
  have stop: "processEvents env False (Message req # evs) s = snd (onMessage env req s)" for s
    using r [of s] by (cases "onMessage env req s") simp
  have go: "processEvents env True (Message req # evs) s
          = processEvents env True evs
              (logLine env (''Unhandled exception: '' @ errorToString (assertionFailure env)
                            @ '' at '' @ errorStack (assertionFailure env))
                 (snd (onMessage env req s)))" for s
    using r [of s] by (cases "onMessage env req s") simp
  show "processEvents env False (Message req # evs) st = snd (onMessage env req st)"
    by (rule stop)
  show "processEvents env True (Message req # evs) st
          = processEvents env True evs
              (logLine env (''Unhandled exception: '' @ errorToString (assertionFailure env)
                            @ '' at '' @ errorStack (assertionFailure env))
                 (snd (onMessage env req st)))"
    by (rule go)
  show "main env None loc safe tmap npm (Message req # evs) w0
          = snd (onMessage env req (NodeTypingsInstaller env loc safe tmap npm 5 (FileLog None) w0))"
    unfolding m using stop by simp
  show "main env (Some logPath) loc safe tmap npm (Message req # evs) w0
          = processEvents env True evs
              (logLine env (''Unhandled exception: '' @ errorToString (assertionFailure env)
                            @ '' at '' @ errorStack (assertionFailure env))
                 (snd (onMessage env req
                         (NodeTypingsInstaller env loc safe tmap npm 5 (FileLog (Some logPath)) w0))))"
    unfolding m using go by simp
  have "logFile (log (snd (onMessage env req
           (NodeTypingsInstaller env loc safe tmap npm 5 (FileLog (Some logPath)) w0)))) = Some logPath"
    using k by (simp add: onMessage_def FileLog_def split: option.splits)
  then show "world (logLine env (''Unhandled exception: '' @ errorToString (assertionFailure env)
                            @ '' at '' @ errorStack (assertionFailure env))
                 (snd (onMessage env req
                         (NodeTypingsInstaller env loc safe tmap npm 5 (FileLog (Some logPath)) w0))))
          = snd (appendFileSync env (Some logPath)
                   ((''Unhandled exception: '' @ errorToString (assertionFailure env)
                     @ '' at '' @ errorStack (assertionFailure env)) @ newLine env)
                   (world (snd (onMessage env req
                      (NodeTypingsInstaller env loc safe tmap npm 5 (FileLog (Some logPath)) w0)))))"
    by (simp only: logLine_world)
qed

theorem unknown_kind_asserts_witness:
  "\<not> legalKind (OtherKind ''ping'' :: unit request)
   \<and> fst (onMessage testPlatform (OtherKind ''ping'')
            (NodeTypingsInstaller testPlatform ''/cache'' None None (Some ''npm'') 5
               (FileLog None) offlineWorld))
       = Inl (JsError ''Error'' ''Debug Failure.'' [])
   \<and> main testPlatform None ''/cache'' None None (Some ''npm'')
         [Message (OtherKind ''ping''), Message TypesRegistry] offlineWorld
       = snd (onMessage testPlatform (OtherKind ''ping'')
                (NodeTypingsInstaller testPlatform ''/cache'' None None (Some ''npm'') 5
                   (FileLog None) offlineWorld))
   \<and> main testPlatform (Some ''/var/log/ti.log'') ''/cache'' None None (Some ''npm'')
         [Message (OtherKind ''ping''), Message TypesRegistry] registryWorld
       = processEvents testPlatform True [Message TypesRegistry]
           (logLine testPlatform (''Unhandled exception: ''
                                  @ errorToString (JsError ''Error'' ''Debug Failure.'' [])
                                  @ '' at '' @ errorStack (JsError ''Error'' ''Debug Failure.'' []))
              (snd (onMessage testPlatform (OtherKind ''ping'')
                      (NodeTypingsInstaller testPlatform ''/cache'' None None (Some ''npm'') 5
                         (FileLog (Some ''/var/log/ti.log'')) registryWorld))))
   \<and> legalKind (TypesRegistry :: unit request)
   \<and> fst (onMessage testPlatform TypesRegistry
            (NodeTypingsInstaller testPlatform ''/cache'' None None (Some ''npm'') 5
               (FileLog None) offlineWorld))
       = Inr ()
   \<and> processEvents testPlatform True [Message TypesRegistry, Disconnect]
        (NodeTypingsInstaller testPlatform ''/cache'' None None (Some ''npm'') 5
           (FileLog None) offlineWorld)
       = processEvents testPlatform False [Message TypesRegistry, Disconnect]
           (NodeTypingsInstaller testPlatform ''/cache'' None None (Some ''npm'') 5
              (FileLog None) offlineWorld)"
proof -
  let ?st = "NodeTypingsInstaller testPlatform ''/cache'' None None (Some ''npm'') 5
               (FileLog None) offlineWorld :: (testWorld, unit) installer"
  have h1: "\<not> legalKind (OtherKind ''ping'' :: unit request)" by simp
  have h2: "legalKind (TypesRegistry :: unit request)" by simp
  have h3: "\<forall>ev \<in> set [Message TypesRegistry, Disconnect :: unit event].
              \<forall>r. ev = Message r \<longrightarrow> legalKind r" by simp
  have e: "assertionFailure testPlatform = JsError ''Error'' ''Debug Failure.'' []"
    by (simp add: testPlatform_def)
  note quiet = unknown_kind_asserts [where req = "OtherKind ''ping''" and env = testPlatform
      and st = ?st and evs = "[Message TypesRegistry]" and loc = "''/cache''" and safe = None
      and tmap = None and npm = "Some ''npm''" and ?w0.0 = offlineWorld,
      THEN conjunct1, THEN mp, OF h1]
  note logged = unknown_kind_asserts [where req = "OtherKind ''ping''" and env = testPlatform
      and evs = "[Message TypesRegistry]" and loc = "''/cache''" and safe = None
      and tmap = None and npm = "Some ''npm''" and ?w0.0 = registryWorld
      and logPath = "''/var/log/ti.log''",
      THEN conjunct1, THEN mp, OF h1]
  note legal = unknown_kind_asserts [where req = TypesRegistry and env = testPlatform
      and st = ?st, THEN conjunct2, THEN conjunct1, THEN mp, OF h2]
  note alike = unknown_kind_asserts [where env = testPlatform and st = ?st
      and evs = "[Message TypesRegistry, Disconnect]",
      THEN conjunct2, THEN conjunct2, THEN conjunct1, THEN mp, OF h3]
  from quiet have q1: "fst (onMessage testPlatform (OtherKind ''ping'') ?st)
       = Inl (JsError ''Error'' ''Debug Failure.'' [])"
    and q2: "main testPlatform None ''/cache'' None None (Some ''npm'')
         [Message (OtherKind ''ping''), Message TypesRegistry] offlineWorld
       = snd (onMessage testPlatform (OtherKind ''ping'') ?st)"
    unfolding e by blast+
  from logged have l1: "main testPlatform (Some ''/var/log/ti.log'') ''/cache'' None None (Some ''npm'')
         [Message (OtherKind ''ping''), Message TypesRegistry] registryWorld
       = processEvents testPlatform True [Message TypesRegistry]
           (logLine testPlatform (''Unhandled exception: ''
                                  @ errorToString (JsError ''Error'' ''Debug Failure.'' [])
                                  @ '' at '' @ errorStack (JsError ''Error'' ''Debug Failure.'' []))
              (snd (onMessage testPlatform (OtherKind ''ping'')
                      (NodeTypingsInstaller testPlatform ''/cache'' None None (Some ''npm'') 5
                         (FileLog (Some ''/var/log/ti.log'')) registryWorld))))"
    unfolding e by blast
  from h1 q1 q2 l1 h2 legal alike show ?thesis by blast
qed

text \<open>
  Claim C7, as the spec states it: a program entry whose base name contains \<^verbatim>\<open>node\<close>
  selects the quoted sibling path. It fails for \<^verbatim>\<open>/opt/tools/portable-node\<close>: the base
  name contains \<^verbatim>\<open>node\<close> and the location is the bare \<^verbatim>\<open>npm\<close>.
\<close>

theorem default_npm_contains_counterexample:
  "stringContains (path_basename portablePlatform (argv0 portablePlatform)) ''node''
   \<and> npmPath (NodeTypingsInstaller portablePlatform ''/cache'' None None None 5 (FileLog None)
               offlineWorld) = ''npm''
   \<and> dquote @ path_join portablePlatform
                 [path_dirname portablePlatform (argv0 portablePlatform), ''npm''] @ dquote
       \<noteq> ''npm''"
  by code_simp

text \<open>
  Claim C7, amended. When no location is given, the installer's package-manager path is
  the quoted join of the program entry's directory with \<^verbatim>\<open>npm\<close> when the base name of
  the program entry begins with \<^verbatim>\<open>node\<close>, and the bare \<^verbatim>\<open>npm\<close> otherwise.
\<close>

theorem default_npm_location:
  "npmPath (NodeTypingsInstaller env loc safe tmap None thr log0 w0) =
     (if prefix ''node'' (path_basename env (argv0 env))
      then dquote @ path_join env [path_dirname env (argv0 env), ''npm''] @ dquote
      else ''npm'')"
  by (simp add: NodeTypingsInstaller_def beforeUpdate_def Let_def getDefaultNPMLocation_def
      indexOf_zero_iff npm_no_space dquote_def)

theorem default_npm_location_witness:
  "prefix ''node'' (path_basename testPlatform (argv0 testPlatform))
   \<and> npmPath (NodeTypingsInstaller testPlatform ''/cache'' None None None 5 (FileLog None)
               offlineWorld)
       = dquote @ ''/usr/local/bin/npm'' @ dquote
   \<and> \<not> prefix ''node'' (path_basename portablePlatform (argv0 portablePlatform))
   \<and> npmPath (NodeTypingsInstaller portablePlatform ''/cache'' None None None 5 (FileLog None)
               offlineWorld) = ''npm''"
proof -
  have h1: "prefix ''node'' (path_basename testPlatform (argv0 testPlatform))" by code_simp
  have h2: "\<not> prefix ''node'' (path_basename portablePlatform (argv0 portablePlatform))"
    by code_simp
  have j: "path_join testPlatform [path_dirname testPlatform (argv0 testPlatform), ''npm'']
             = ''/usr/local/bin/npm''" by code_simp
  from default_npm_location [of testPlatform "''/cache''" None None 5 "FileLog None" offlineWorld]
    default_npm_location [of portablePlatform "''/cache''" None None 5 "FileLog None" offlineWorld]
    h1 h2 j
  show ?thesis by simp
qed

text \<open>
  Claim C8. For a non-empty list of package names the install worker runs one command:
  the package-manager path, \<^verbatim>\<open>install --ignore-scripts\<close>, each name in order preceded by
  a space, \<^verbatim>\<open>--save-dev\<close>, and the user agent \<^verbatim>\<open>typesInstaller/\<close> with the version, in
  the given working directory.
\<close>

theorem install_command_line:
  assumes "ns \<noteq> []"
  shows "\<exists>out st3.
           (\<forall>k. installWorker env i ns d k st = k (exitedCleanly out) st3)
           \<and> spawned st3 = spawned st @
                [(npmPath st @ '' install --ignore-scripts'' @ concat (map (\<lambda>n. '' '' @ n) ns)
                  @ '' --save-dev --user-agent='' @ dquote @ ''typesInstaller/'' @ version env
                  @ dquote,
                  \<lparr>cwd = d, stdio = None\<rparr>, out)]"
proof -
  have e1: "npmPath st @ '' install --ignore-scripts '' @ join ns '' '' @ rest
          = npmPath st @ '' install --ignore-scripts'' @ ('' '' @ join ns '' '') @ rest" for rest
    by simp
  have e: "npmPath st @ '' install --ignore-scripts '' @ join ns '' '' @ rest
          = npmPath st @ '' install --ignore-scripts'' @ concat (map (\<lambda>n. '' '' @ n) ns) @ rest"
    for rest
    unfolding e1 join_spaces [OF assms] by (rule refl)
  from installWorker_once [of env i ns d st]
  obtain out st3 where k: "\<forall>k. installWorker env i ns d k st = k (exitedCleanly out) st3"
    and s: "spawned st3 = spawned st @
          [(npmPath st @ '' install --ignore-scripts '' @ join ns '' ''
            @ '' --save-dev --user-agent='' @ dquote @ ''typesInstaller/'' @ version env @ dquote,
            \<lparr>cwd = d, stdio = None\<rparr>, out)]"
    by blast
  from s have "spawned st3 = spawned st @
                [(npmPath st @ '' install --ignore-scripts'' @ concat (map (\<lambda>n. '' '' @ n) ns)
                  @ '' --save-dev --user-agent='' @ dquote @ ''typesInstaller/'' @ version env
                  @ dquote,
                  \<lparr>cwd = d, stdio = None\<rparr>, out)]"
    unfolding e .
  with k show ?thesis by blast
qed

theorem install_command_line_witness:
  "[''react'', ''lodash''] \<noteq> ([] :: string list)
   \<and> (\<exists>out.
        spawned (installWorker testPlatform 7 [''react'', ''lodash''] (Some ''/a/b'') (\<lambda>ok s. s)
                   (NodeTypingsInstaller testPlatform ''/cache'' None None (Some ''npm'') 5
                      (FileLog None) offlineWorld))
        = spawned (NodeTypingsInstaller testPlatform ''/cache'' None None (Some ''npm'') 5
                     (FileLog None) offlineWorld)
          @ [(''npm install --ignore-scripts react lodash --save-dev --user-agent='' @ dquote
              @ ''typesInstaller/2.9.0'' @ dquote,
              \<lparr>cwd = Some ''/a/b'', stdio = None\<rparr>, out)])"
proof -
  let ?st = "NodeTypingsInstaller testPlatform ''/cache'' None None (Some ''npm'') 5
               (FileLog None) offlineWorld :: (testWorld, unit) installer"
  have h: "[''react'', ''lodash''] \<noteq> ([] :: string list)" by simp
  have n: "npmPath ?st = ''npm''" by code_simp
  have v: "version testPlatform = ''2.9.0''" by (simp add: testPlatform_def)
  from install_command_line [OF h, of testPlatform 7 "Some ''/a/b''" ?st]
  obtain out st3 where k: "\<forall>k. installWorker testPlatform 7 [''react'', ''lodash'']
                                (Some ''/a/b'') k ?st = k (exitedCleanly out) st3"
    and s: "spawned st3 = spawned ?st @
                [(npmPath ?st @ '' install --ignore-scripts''
                  @ concat (map (\<lambda>n. '' '' @ n) [''react'', ''lodash''])
                  @ '' --save-dev --user-agent='' @ dquote @ ''typesInstaller/''
                  @ version testPlatform @ dquote,
                  \<lparr>cwd = Some ''/a/b'', stdio = None\<rparr>, out)]"
    by blast
  from k have "installWorker testPlatform 7 [''react'', ''lodash''] (Some ''/a/b'') (\<lambda>ok s. s) ?st
                 = st3" by simp
  with s n v h show ?thesis by (intro conjI exI [of _ out]) simp_all
qed

text \<open>
  Claim C9. A logger made without a file is never enabled, whatever is written to it, and
  stays so through the whole run of the process. When an append fails, \<open>writeLine\<close>
  returns (it has no way to raise) and the logger is disabled after it and after any
  further writes. A disabled logger stays disabled through every event the process
  handles.
\<close>

theorem FileLog_one_way:
  "\<not> isEnabled (fst (writeLines env ts (FileLog None, w)))
   \<and> \<not> isEnabled (log (main env None loc safe tmap npm evs w0))
   \<and> (fst (appendFileSync env (logFile l) (t @ newLine env) w) = Some e \<longrightarrow>
        \<not> isEnabled (fst (writeLines env ts (writeLine env t (l, w)))))
   \<and> (\<not> isEnabled (log st) \<longrightarrow> \<not> isEnabled (log (processEvents env h evs st)))"
proof (intro conjI impI)
  have n: "\<not> isEnabled (FileLog None)" by (simp add: isEnabled_def FileLog_def)
  then have "\<not> isEnabled (fst (FileLog None, w))" by simp
  then show "\<not> isEnabled (fst (writeLines env ts (FileLog None, w)))"
    by (rule writeLines_disabled)
  from processEvents_disabled [OF NodeTypingsInstaller_disabled [OF n]]
  show "\<not> isEnabled (log (main env None loc safe tmap npm evs w0))"
    by (simp add: main_def Let_def)
next
  assume "fst (appendFileSync env (logFile l) (t @ newLine env) w) = Some e"
  then have "\<not> isEnabled (fst (writeLine env t (l, w)))"
    using writeLine_failed [of env "(l, w)" t e] by simp
  then show "\<not> isEnabled (fst (writeLines env ts (writeLine env t (l, w))))"
    by (rule writeLines_disabled)
next
  assume "\<not> isEnabled (log st)"
  then show "\<not> isEnabled (log (processEvents env h evs st))"
    by (rule processEvents_disabled)
qed

theorem FileLog_one_way_witness:
  "isEnabled (FileLog (Some ''/var/log/ti.log''))
   \<and> fst (appendFileSync testPlatform (logFile (FileLog (Some ''/var/log/ti.log'')))
            (''first'' @ newLine testPlatform) readOnlyWorld)
       = Some (JsError ''Error'' ''EACCES: permission denied'' [])
   \<and> \<not> isEnabled (fst (writeLines testPlatform [''second'', ''third'']
                          (writeLine testPlatform ''first''
                             (FileLog (Some ''/var/log/ti.log''), readOnlyWorld))))
   \<and> \<not> isEnabled (log (NodeTypingsInstaller testPlatform ''/cache'' None None (Some ''npm'') 5
                          (FileLog (Some ''/var/log/ti.log'')) readOnlyWorld))
   \<and> \<not> isEnabled (log (processEvents testPlatform True
                          [Message TypesRegistry, Message (OtherKind ''ping'')]
                          (NodeTypingsInstaller testPlatform ''/cache'' None None (Some ''npm'') 5
                             (FileLog (Some ''/var/log/ti.log'')) readOnlyWorld)))"
proof -
  let ?st = "NodeTypingsInstaller testPlatform ''/cache'' None None (Some ''npm'') 5
               (FileLog (Some ''/var/log/ti.log'')) readOnlyWorld :: (testWorld, unit) installer"
  have h0: "isEnabled (FileLog (Some ''/var/log/ti.log''))" by code_simp
  have h: "fst (appendFileSync testPlatform (logFile (FileLog (Some ''/var/log/ti.log'')))
            (''first'' @ newLine testPlatform) readOnlyWorld)
       = Some (JsError ''Error'' ''EACCES: permission denied'' [])" by code_simp
  have d: "\<not> isEnabled (log ?st)" by code_simp
  from FileLog_one_way [where env = testPlatform and l = "FileLog (Some ''/var/log/ti.log'')"
      and t = "''first''" and w = readOnlyWorld and ts = "[''second'', ''third'']",
      THEN conjunct2, THEN conjunct2, THEN conjunct1, rule_format, OF h]
    FileLog_one_way [where env = testPlatform and st = ?st and h = True
      and evs = "[Message TypesRegistry, Message (OtherKind ''ping'')]",
      THEN conjunct2, THEN conjunct2, THEN conjunct2, rule_format, OF d]
    h0 h d
  show ?thesis by simp
qed

text \<open>
  Claim C10. When the resolver finds no directory, or gives the empty string, and the
  message has no \<^verbatim>\<open>projectRootPath\<close>, handling the \<^verbatim>\<open>installPackage\<close> message is
  running the install worker with no working directory: \<open>execSync\<close> is called with the
  install command and an absent \<^verbatim>\<open>cwd\<close>, the listener returns normally, the response
  sent last carries the flag that says whether that call exited cleanly, and with logging
  off the world left is the one \<open>execSync\<close> left.
\<close>

theorem install_without_package_root:
  assumes "getDirectoryOfPackageJson env fileName
             (world (case delayedInitializationError st of
                       Some e \<Rightarrow> (sendResponse env e st)\<lparr>delayedInitializationError := None\<rparr>
                     | None \<Rightarrow> st)) \<in> {None, Some []}"
  shows "(let flushed = (case delayedInitializationError st of
                      Some e \<Rightarrow> (sendResponse env e st)\<lparr>delayedInitializationError := None\<rparr>
                    | None \<Rightarrow> st);
              pre = (if isEnabled (log flushed)
                     then logLine env (''#'' @ showInt (- 1) @ '' with arguments'' @ squote
                                       @ JSON_stringify_names env [packageName] @ squote @ ''.'')
                            flushed
                     else flushed);
              command = npmPath st @ '' install --ignore-scripts '' @ packageName
                        @ '' --save-dev --user-agent='' @ dquote @ ''typesInstaller/''
                        @ version env @ dquote;
              r = execSync env command \<lparr>cwd = None, stdio = None\<rparr> (world pre)
          in onMessage env (InstallPackage fileName packageName None) st
               = (Inr (),
                  installWorker env (- 1) [packageName] None
                    (\<lambda>success.
                       sendResponse env
                         (PackageInstalledResponse success
                            (if success then ''Package '' @ packageName @ '' installed.''
                             else ''There was an error installing '' @ packageName @ ''.'')))
                    flushed)
             \<and> (\<exists>st1.
                  onMessage env (InstallPackage fileName packageName None) st = (Inr (), st1)
                  \<and> spawned st1 = spawned st @ [(command, \<lparr>cwd = None, stdio = None\<rparr>, fst r)]
                  \<and> last (sent st1) =
                      PackageInstalledResponse (exitedCleanly (fst r))
                        (if exitedCleanly (fst r) then ''Package '' @ packageName @ '' installed.''
                         else ''There was an error installing '' @ packageName @ ''.'')
                  \<and> (\<not> isEnabled (log st) \<longrightarrow> world st1 = snd r)))"
proof -
  let ?flushed = "case delayedInitializationError st of
                Some e \<Rightarrow> (sendResponse env e st)\<lparr>delayedInitializationError := None\<rparr>
              | None \<Rightarrow> st"
  have d: "orElse (getDirectoryOfPackageJson env fileName (world ?flushed)) None = None"
    using assms by auto
  have o: "onMessage env (InstallPackage fileName packageName None) st
               = (Inr (),
                  installWorker env (- 1) [packageName] None
                    (\<lambda>success.
                       sendResponse env
                         (PackageInstalledResponse success
                            (if success then ''Package '' @ packageName @ '' installed.''
                             else ''There was an error installing '' @ packageName @ ''.'')))
                    ?flushed)"
    by (simp add: onMessage_def Let_def d)
  from onMessage_installPackage [where env = env and st = st and fileName = fileName
      and packageName = packageName and projectRootPath = None, unfolded Let_def d]
  show ?thesis
    unfolding Let_def using o by auto
qed

theorem install_without_package_root_witness:
  "getDirectoryOfPackageJson testPlatform ''/x/y.ts'' offlineWorld = None
   \<and> getDirectoryOfPackageJson testPlatform ''file.ts'' cwdPackageWorld = Some []
   \<and> (\<exists>st1. onMessage testPlatform (InstallPackage ''file.ts'' ''react'' None)
           \<lparr>log = FileLog None, world = cwdPackageWorld, npmPath = ''npm'', typesRegistry = [],
            delayedInitializationError = None, sent = [], spawned = []\<rparr> = (Inr (), st1)
         \<and> map (\<lambda>x. cwd (fst (snd x))) (spawned st1) = [None]
         \<and> last (sent st1) = PackageInstalledResponse True ''Package react installed.''
         \<and> world st1 = cwdPackageWorld\<lparr>clock := 1\<rparr>)"
proof -
  let ?st = "\<lparr>log = FileLog None, world = cwdPackageWorld, npmPath = ''npm'', typesRegistry = [],
            delayedInitializationError = None, sent = [], spawned = []\<rparr> :: (testWorld, unit) installer"
  have h1: "getDirectoryOfPackageJson testPlatform ''/x/y.ts'' offlineWorld = None" by code_simp
  have h2: "getDirectoryOfPackageJson testPlatform ''file.ts'' cwdPackageWorld = Some []" by code_simp
  then have h: "getDirectoryOfPackageJson testPlatform ''file.ts''
             (world (case delayedInitializationError ?st of
                       Some e \<Rightarrow> (sendResponse testPlatform e ?st)\<lparr>delayedInitializationError := None\<rparr>
                     | None \<Rightarrow> ?st)) \<in> {None, Some []}" by simp
  have e: "(let flushed = (case delayedInitializationError ?st of
                      Some e \<Rightarrow> (sendResponse testPlatform e ?st)\<lparr>delayedInitializationError := None\<rparr>
                    | None \<Rightarrow> ?st);
              pre = (if isEnabled (log flushed)
                     then logLine testPlatform (''#'' @ showInt (- 1) @ '' with arguments'' @ squote
                                       @ JSON_stringify_names testPlatform [''react''] @ squote @ ''.'')
                            flushed
                     else flushed);
              command = npmPath ?st @ '' install --ignore-scripts '' @ ''react''
                        @ '' --save-dev --user-agent='' @ dquote @ ''typesInstaller/''
                        @ version testPlatform @ dquote;
              r = execSync testPlatform command \<lparr>cwd = None, stdio = None\<rparr> (world pre)
          in exitedCleanly (fst r) = True \<and> snd r = cwdPackageWorld\<lparr>clock := 1\<rparr>)"
    by code_simp
  have q: "\<not> isEnabled (log ?st)" by code_simp
  from install_without_package_root [OF h, of "''react''", unfolded Let_def, THEN conjunct2]
    e [unfolded Let_def] q
  have "\<exists>st1. onMessage testPlatform (InstallPackage ''file.ts'' ''react'' None) ?st = (Inr (), st1)
         \<and> map (\<lambda>x. cwd (fst (snd x))) (spawned st1) = [None]
         \<and> last (sent st1) = PackageInstalledResponse True ''Package react installed.''
         \<and> world st1 = cwdPackageWorld\<lparr>clock := 1\<rparr>"
    by auto
  with h1 h2 show ?thesis by blast
qed

end
